theory Spec2Isabelle
  imports Complex_Main "HOL-Library.AList" "HOL-Library.Char_ord" "HOL-Library.List_Lexorder"
    "HOL-Library.Multiset"
begin

text \<open>
  A shallow embedding of RaceStory Pro's \<^verbatim>\<open>CSVParser\<close> (column normalisation and the four
  parse entry points) and \<^verbatim>\<open>RaceAnalyzer\<close> (race progression, key battles, fastest laps,
  consistency, position changes, race summary), with the properties of them that are
  proved. Exceptions are values; the calls into pandas and numpy whose result the program
  does not determine (reading a file, the order a sort gives to equal keys, the text of a
  float) are parameters. Logging is left out.
\<close>

section \<open>Python values\<close>

text \<open>
  Column names and cell texts are ASCII strings. Python's \<^verbatim>\<open>str.strip()\<close> removes the
  whitespace characters below from both ends; \<^verbatim>\<open>str.upper()\<close> maps \<^verbatim>\<open>a..z\<close> to
  \<^verbatim>\<open>A..Z\<close> and leaves every other ASCII character alone.
\<close>

definition is_space :: "char \<Rightarrow> bool" where
  "is_space c = (c \<in> set [CHR 0x09, CHR 0x0A, CHR 0x0B, CHR 0x0C, CHR 0x0D,
                            CHR 0x1C, CHR 0x1D, CHR 0x1E, CHR 0x1F, CHR 0x20])"

definition strip :: "string \<Rightarrow> string" where
  "strip s = rev (dropWhile is_space (rev (dropWhile is_space s)))"

definition upper_char :: "char \<Rightarrow> char" where
  "upper_char c =
     (case map_of (zip ''abcdefghijklmnopqrstuvwxyz'' ''ABCDEFGHIJKLMNOPQRSTUVWXYZ'') c of
        Some d \<Rightarrow> d
      | None \<Rightarrow> c)"

definition upper :: "string \<Rightarrow> string" where
  "upper s = map upper_char s"

text \<open>
  A Python float is a finite value, an infinity or NaN. Finite values are kept exact:
  the rounding of binary64 is not modelled.
\<close>

datatype pyfloat = Fin real | PInf | NInf | NaN

text \<open>A cell of a table as \<^verbatim>\<open>read_csv\<close> produces it: text, an integer or a float
  (a missing cell is the float NaN).\<close>

datatype cell = Str string | IntC int | Flt pyfloat

text \<open>A DataFrame with pandas' default index \<^verbatim>\<open>0..n-1\<close>: the column labels and the
  rows, each row listing its cells in column order. The parser works for any type of
  cells; the analyzer reads tables of \<^typ>\<open>cell\<close>.\<close>

record 'c dataframe =
  columns :: "string list"
  rows :: "'c list list"

text \<open>DataFrames are objects: a heap holds them and a reference is a position in it.\<close>

type_synonym 'c heap = "'c dataframe list"

section \<open>CSVParser: column normalisation\<close>

text \<open>\<^verbatim>\<open>self.column_mappings\<close>, a dict, in its insertion order.\<close>

definition column_mappings :: "(string \<times> string list) list" where
  "column_mappings =
    [(''position'', [''POS'', ''POSITION'', ''P'', ''RANK'']),
     (''number'', [''NUMBER'', ''CAR'', ''CAR_NUMBER'', ''#'']),
     (''driver'', [''DRIVER'', ''DRIVER_NAME'', ''NAME'']),
     (''driver_first'', [''DRIVER_FIRSTNAME'', ''FIRST_NAME'', ''FIRSTNAME'']),
     (''driver_last'', [''DRIVER_SECONDNAME'', ''LAST_NAME'', ''SURNAME'', ''LASTNAME'']),
     (''team'', [''TEAM'', ''TEAM_NAME'', ''CONSTRUCTOR'']),
     (''laps'', [''LAPS'', ''TOTAL_LAPS'', ''LAPS_COMPLETED'']),
     (''time'', [''ELAPSED'', ''TIME'', ''TOTAL_TIME'']),
     (''gap'', [''GAP_FIRST'', ''GAP'', ''INTERVAL'']),
     (''gap_prev'', [''GAP_PREVIOUS'', ''GAP_PREV'', ''BEHIND'']),
     (''best_lap'', [''BEST_LAP_TIME'', ''BEST_LAP'', ''FASTEST_LAP'']),
     (''best_lap_num'', [''BEST_LAP_NUM'', ''BEST_LAP_NUMBER'', ''FL_LAP'']),
     (''best_lap_speed'', [''BEST_LAP_KPH'', ''BEST_LAP_MPH'', ''FL_SPEED'']),
     (''status'', [''STATUS'', ''CLASS_TYPE'', ''CLASSIFICATION'']),
     (''class'', [''CLASS_TYPE'', ''CLASS'', ''CATEGORY'']),
     (''vehicle'', [''VEHICLE'', ''CAR_MODEL'', ''MODEL''])]"

text \<open>The inner loop of \<^verbatim>\<open>normalize_columns\<close> over the registry, left at the first
  field one of whose variants equals the column name in upper case.\<close>

fun match_standard :: "(string \<times> string list) list \<Rightarrow> string \<Rightarrow> string option" where
  "match_standard [] col_upper = None"
| "match_standard ((standard_name, variants) # rest) col_upper =
     (if col_upper \<in> set (map upper variants) then Some (upper standard_name)
      else match_standard rest col_upper)"

text \<open>A column name matches a registry entry when, in upper case, it is one of the
  entry's variants in upper case.\<close>

definition matches_alias :: "string \<Rightarrow> string \<times> string list \<Rightarrow> bool" where
  "matches_alias col entry = (upper col \<in> set (map upper (snd entry)))"

text \<open>The outer loop: the dict \<^verbatim>\<open>normalized\<close>, from column name to standard name.\<close>

fun build_normalized :: "string list \<Rightarrow> (string \<times> string) list \<Rightarrow> (string \<times> string) list" where
  "build_normalized [] normalized = normalized"
| "build_normalized (col # cols) normalized =
     (case match_standard column_mappings (upper col) of
        Some n \<Rightarrow> build_normalized cols (AList.update col n normalized)
      | None \<Rightarrow> build_normalized cols normalized)"

text \<open>\<^verbatim>\<open>df.rename(columns=normalized)\<close>: a new DataFrame with the same cells.\<close>

definition rename :: "(string \<times> string) list \<Rightarrow> 'c dataframe \<Rightarrow> 'c dataframe" where
  "rename normalized df =
     df\<lparr>columns := map (\<lambda>c. case map_of normalized c of Some n \<Rightarrow> n | None \<Rightarrow> c) (columns df)\<rparr>"

text \<open>
  \<^verbatim>\<open>normalize_columns(df)\<close> on the object at reference \<open>r\<close>: the assignment to
  \<^verbatim>\<open>df.columns\<close> updates that object; \<^verbatim>\<open>rename\<close> allocates a new one. The result is
  the reference returned and the heap after the call (\<open>None\<close> for a dangling reference,
  which Python cannot pass).
\<close>

definition normalize_columns :: "'c heap \<Rightarrow> nat \<Rightarrow> (nat \<times> 'c heap) option" where
  "normalize_columns h r =
     (if r < length h then
        let df = (h ! r)\<lparr>columns := map strip (columns (h ! r))\<rparr>;
            h1 = h[r := df];
            normalized = build_normalized (columns df) []
        in if normalized \<noteq> [] then Some (length h1, h1 @ [rename normalized df])
           else Some (r, h1)
      else None)"

section \<open>Python and pandas operations the code calls\<close>

text \<open>The exceptions that occur; all are subclasses of \<^verbatim>\<open>Exception\<close>.\<close>

datatype exn = KeyError | ValueError | TypeError | OverflowError | IndexError
  | FileNotFoundError | ParserError

subsection \<open>Float arithmetic and comparison\<close>

text \<open>\<^verbatim>\<open>a <= b\<close> and \<^verbatim>\<open>a < b\<close>: every comparison with NaN is false.\<close>

fun fle :: "pyfloat \<Rightarrow> pyfloat \<Rightarrow> bool" where
  "fle NaN b = False"
| "fle a NaN = False"
| "fle NInf b = True"
| "fle a PInf = True"
| "fle (Fin a) (Fin b) = (a \<le> b)"
| "fle a b = False"

definition flt :: "pyfloat \<Rightarrow> pyfloat \<Rightarrow> bool" where
  "flt a b = (fle a b \<and> \<not> fle b a)"

fun fsgn :: "pyfloat \<Rightarrow> int" where
  "fsgn (Fin a) = (if a = 0 then 0 else if 0 < a then 1 else - 1)"
| "fsgn PInf = 1"
| "fsgn NInf = - 1"
| "fsgn NaN = 0"

definition inf_of_sign :: "int \<Rightarrow> pyfloat" where
  "inf_of_sign s = (if s = 0 then NaN else if 0 < s then PInf else NInf)"

fun fneg :: "pyfloat \<Rightarrow> pyfloat" where
  "fneg (Fin a) = Fin (- a)"
| "fneg PInf = NInf"
| "fneg NInf = PInf"
| "fneg NaN = NaN"

fun fadd :: "pyfloat \<Rightarrow> pyfloat \<Rightarrow> pyfloat" where
  "fadd NaN b = NaN"
| "fadd a NaN = NaN"
| "fadd (Fin a) (Fin b) = Fin (a + b)"
| "fadd PInf NInf = NaN"
| "fadd NInf PInf = NaN"
| "fadd PInf b = PInf"
| "fadd NInf b = NInf"
| "fadd a PInf = PInf"
| "fadd a NInf = NInf"

definition fsub :: "pyfloat \<Rightarrow> pyfloat \<Rightarrow> pyfloat" where
  "fsub a b = fadd a (fneg b)"

fun fmul :: "pyfloat \<Rightarrow> pyfloat \<Rightarrow> pyfloat" where
  "fmul NaN b = NaN"
| "fmul a NaN = NaN"
| "fmul (Fin a) (Fin b) = Fin (a * b)"
| "fmul a b = inf_of_sign (fsgn a * fsgn b)"

text \<open>Division as numpy's float64 does it: a zero divisor gives an infinity or NaN with a
  warning, not an exception.\<close>

fun fdiv :: "pyfloat \<Rightarrow> pyfloat \<Rightarrow> pyfloat" where
  "fdiv NaN b = NaN"
| "fdiv a NaN = NaN"
| "fdiv (Fin a) (Fin b) = (if b = 0 then inf_of_sign (fsgn (Fin a)) else Fin (a / b))"
| "fdiv (Fin a) b = Fin 0"
| "fdiv a (Fin b) = inf_of_sign (fsgn a * (if b < 0 then - 1 else 1))"
| "fdiv a b = NaN"

fun fsqrt :: "pyfloat \<Rightarrow> pyfloat" where
  "fsqrt (Fin a) = (if a < 0 then NaN else Fin (sqrt a))"
| "fsqrt PInf = PInf"
| "fsqrt NInf = NaN"
| "fsqrt NaN = NaN"

definition fsum :: "pyfloat list \<Rightarrow> pyfloat" where
  "fsum xs = foldl fadd (Fin 0) xs"

text \<open>\<^verbatim>\<open>np.mean\<close> and \<^verbatim>\<open>np.std\<close> (population standard deviation, \<^verbatim>\<open>ddof=0\<close>).\<close>

definition np_mean :: "pyfloat list \<Rightarrow> pyfloat" where
  "np_mean xs = fdiv (fsum xs) (Fin (real (length xs)))"

definition np_std :: "pyfloat list \<Rightarrow> pyfloat" where
  "np_std xs =
     (let m = np_mean xs
      in fsqrt (np_mean (map (\<lambda>x. fmul (fsub x m) (fsub x m)) xs)))"

text \<open>\<^verbatim>\<open>min(xs)\<close>: the first element, replaced by each later one that is \<^verbatim>\<open><\<close> it;
  \<^verbatim>\<open>ValueError\<close> on the empty list.\<close>

fun py_min :: "pyfloat list \<Rightarrow> exn + pyfloat" where
  "py_min [] = Inl ValueError"
| "py_min (x # xs) = Inr (foldl (\<lambda>m y. if flt y m then y else m) x xs)"

subsection \<open>Strings to numbers\<close>

definition is_digit :: "char \<Rightarrow> bool" where
  "is_digit c = (c \<in> set ''0123456789'')"

definition digit_val :: "char \<Rightarrow> int" where
  "digit_val c = (case map_of (zip ''0123456789'' [0, 1, 2, 3, 4, 5, 6, 7, 8, 9]) c of
                    Some d \<Rightarrow> d | None \<Rightarrow> 0)"

text \<open>The rest of a \<^verbatim>\<open>digitpart\<close> after its first digit: more digits, each optionally
  preceded by one underscore. Returns the value so far and the unread text.\<close>

fun more_digits :: "int \<Rightarrow> string \<Rightarrow> int \<times> nat \<times> string" where
  "more_digits acc [] = (acc, 0, [])"
| "more_digits acc [c] =
     (if is_digit c then (10 * acc + digit_val c, 1, []) else (acc, 0, [c]))"
| "more_digits acc (c # d # cs) =
     (if is_digit c then
        (case more_digits (10 * acc + digit_val c) (d # cs) of (v, n, r) \<Rightarrow> (v, Suc n, r))
      else if c = CHR ''_'' \<and> is_digit d then
        (case more_digits (10 * acc + digit_val d) cs of (v, n, r) \<Rightarrow> (v, Suc n, r))
      else (acc, 0, c # d # cs))"

text \<open>\<^verbatim>\<open>digitpart ::= digit (["_"] digit)*\<close>, continuing the value \<open>acc\<close>: the value, the
  number of digits read and the unread text; \<open>None\<close> when the text does not start with a
  digit.\<close>

definition digitpart :: "int \<Rightarrow> string \<Rightarrow> (int \<times> nat \<times> string) option" where
  "digitpart acc s =
     (case s of
        [] \<Rightarrow> None
      | c # cs \<Rightarrow>
          if is_digit c then
            (case more_digits (10 * acc + digit_val c) cs of (v, n, r) \<Rightarrow> Some (v, Suc n, r))
          else None)"

text \<open>\<^verbatim>\<open>number ::= [digitpart] "." digitpart | digitpart ["."]\<close>: the digits as one
  integer, the count of digits after the point, and the unread text.\<close>

definition number :: "string \<Rightarrow> (int \<times> nat \<times> string) option" where
  "number s =
     (case digitpart 0 s of
        Some (ip, _, r) \<Rightarrow>
          (case r of
             [] \<Rightarrow> Some (ip, 0, [])
           | c # cs \<Rightarrow>
               if c = CHR ''.'' then
                 (case digitpart ip cs of
                    Some (v, n, r') \<Rightarrow> Some (v, n, r')
                  | None \<Rightarrow> Some (ip, 0, cs))
               else Some (ip, 0, r))
      | None \<Rightarrow>
          (case s of
             [] \<Rightarrow> None
           | c # cs \<Rightarrow>
               if c = CHR ''.'' then digitpart 0 cs else None))"

text \<open>An optional sign: its value and the unread text.\<close>

definition opt_sign :: "string \<Rightarrow> int \<times> string" where
  "opt_sign s =
     (case s of
        [] \<Rightarrow> (1, [])
      | c # cs \<Rightarrow>
          if c = CHR ''+'' then (1, cs) else if c = CHR ''-'' then (- 1, cs) else (1, s))"

text \<open>\<^verbatim>\<open>exponent ::= ("e" | "E") [sign] digitpart\<close>, to the end of the text; the empty
  text is exponent 0.\<close>

definition exponent :: "string \<Rightarrow> int option" where
  "exponent s =
     (case s of
        [] \<Rightarrow> Some 0
      | c # cs \<Rightarrow>
          if c = CHR ''e'' \<or> c = CHR ''E'' then
            (case opt_sign cs of
               (sg, r) \<Rightarrow>
                 (case digitpart 0 r of
                    Some (v, _, []) \<Rightarrow> Some (sg * v)
                  | _ \<Rightarrow> None))
          else None)"

definition pow10 :: "int \<Rightarrow> real" where
  "pow10 e = (if 0 \<le> e then 10 ^ nat e else 1 / 10 ^ nat (- e))"

text \<open>
  \<^verbatim>\<open>float(s)\<close> for a string: surrounding whitespace is dropped, then an optional sign and
  either \<^verbatim>\<open>inf\<close>, \<^verbatim>\<open>infinity\<close>, \<^verbatim>\<open>nan\<close> (in any case) or a decimal number with an
  optional exponent. \<open>None\<close> is \<^verbatim>\<open>ValueError\<close>.
\<close>

definition py_float :: "string \<Rightarrow> pyfloat option" where
  "py_float s =
     (case opt_sign (strip s) of
        (sg, r) \<Rightarrow>
          if upper r = ''INF'' \<or> upper r = ''INFINITY'' then Some (inf_of_sign sg)
          else if upper r = ''NAN'' then Some NaN
          else
            (case number r of
               None \<Rightarrow> None
             | Some (m, n, r') \<Rightarrow>
                 (case exponent r' of
                    None \<Rightarrow> None
                  | Some e \<Rightarrow> Some (Fin (real_of_int (sg * m) * pow10 (e - int n))))))"

text \<open>\<^verbatim>\<open>int(s)\<close> for a string: whitespace dropped, an optional sign, one \<^verbatim>\<open>digitpart\<close>.\<close>

definition py_int_str :: "string \<Rightarrow> int option" where
  "py_int_str s =
     (case opt_sign (strip s) of
        (sg, r) \<Rightarrow>
          (case digitpart 0 r of
             Some (v, _, []) \<Rightarrow> Some (sg * v)
           | _ \<Rightarrow> None))"

text \<open>\<^verbatim>\<open>int(x)\<close> for a cell: a float is truncated towards zero; NaN raises
  \<^verbatim>\<open>ValueError\<close> and an infinity \<^verbatim>\<open>OverflowError\<close>.\<close>

fun py_int :: "cell \<Rightarrow> exn + int" where
  "py_int (Str s) = (case py_int_str s of Some i \<Rightarrow> Inr i | None \<Rightarrow> Inl ValueError)"
| "py_int (IntC i) = Inr i"
| "py_int (Flt (Fin r)) = Inr (if 0 \<le> r then \<lfloor>r\<rfloor> else \<lceil>r\<rceil>)"
| "py_int (Flt NaN) = Inl ValueError"
| "py_int (Flt PInf) = Inl OverflowError"
| "py_int (Flt NInf) = Inl OverflowError"

subsection \<open>Numbers to strings, truth values\<close>

definition digit_char :: "nat \<Rightarrow> char" where
  "digit_char d = ''0123456789'' ! (d mod 10)"

fun str_nat :: "nat \<Rightarrow> string" where
  "str_nat n = (if n < 10 then [digit_char n] else str_nat (n div 10) @ [digit_char n])"

definition str_int :: "int \<Rightarrow> string" where
  "str_int i = (if i < 0 then CHR ''-'' # str_nat (nat (- i)) else str_nat (nat i))"

text \<open>
  What the analyzer uses of Python and pandas without it being part of the program:
  the text \<^verbatim>\<open>str\<close> gives for a float (its shortest round-trip digits), the permutation
  numpy's default quicksort returns for a list of keys, and the mean of a column.
\<close>

record pylib =
  repr_float :: "pyfloat \<Rightarrow> string"
  argsort :: "cell list \<Rightarrow> nat list"
  series_mean :: "cell list \<Rightarrow> exn + pyfloat"

fun py_str :: "pylib \<Rightarrow> cell \<Rightarrow> string" where
  "py_str lib (Str s) = s"
| "py_str lib (IntC i) = str_int i"
| "py_str lib (Flt f) = repr_float lib f"

text \<open>The truth value of a cell: the empty string and zero are false, NaN is true.\<close>

fun truthy :: "cell \<Rightarrow> bool" where
  "truthy (Str s) = (s \<noteq> [])"
| "truthy (IntC i) = (i \<noteq> 0)"
| "truthy (Flt f) = (f \<noteq> Fin 0)"

text \<open>\<^verbatim>\<open>pd.isna\<close> of a cell.\<close>

fun isna :: "cell \<Rightarrow> bool" where
  "isna (Flt NaN) = True"
| "isna c = False"

text \<open>\<^verbatim>\<open>s.split(sep)\<close>: the pieces of \<open>s\<close> between all occurrences of \<open>sep\<close>.\<close>

fun split_on :: "char \<Rightarrow> string \<Rightarrow> string list" where
  "split_on sep [] = [[]]"
| "split_on sep (c # cs) =
     (if c = sep then [] # split_on sep cs
      else (case split_on sep cs of
              p # ps \<Rightarrow> (c # p) # ps
            | [] \<Rightarrow> [[c]]))"

subsection \<open>Rows as Series\<close>

text \<open>A row with its labels; \<^verbatim>\<open>row.get(k, d)\<close>, \<^verbatim>\<open>row[k]\<close> and \<^verbatim>\<open>k in row\<close>. The
  labels of a table the analyzer reads are taken to be distinct: under a label that
  occurs twice the first cell stands.\<close>

definition series :: "string list \<Rightarrow> 'c list \<Rightarrow> string \<rightharpoonup> 'c" where
  "series cols vals = map_of (zip cols vals)"

definition get :: "(string \<rightharpoonup> 'c) \<Rightarrow> string \<Rightarrow> 'c \<Rightarrow> 'c" where
  "get row k d = (case row k of Some v \<Rightarrow> v | None \<Rightarrow> d)"

definition getitem :: "(string \<rightharpoonup> 'c) \<Rightarrow> string \<Rightarrow> exn + 'c" where
  "getitem row k = (case row k of Some v \<Rightarrow> Inr v | None \<Rightarrow> Inl KeyError)"

text \<open>\<^verbatim>\<open>df.empty\<close>: no rows or no columns. \<^verbatim>\<open>pd.DataFrame()\<close> has neither.\<close>

definition empty :: "'c dataframe \<Rightarrow> bool" where
  "empty df = (rows df = [] \<or> columns df = [])"

definition DataFrame :: "'c dataframe" where
  "DataFrame = \<lparr>columns = [], rows = []\<rparr>"

section \<open>RaceAnalyzer\<close>

text \<open>Results that may be an exception are sums, \<open>Inl\<close> the exception raised.\<close>

definition bind_exn :: "exn + 'a \<Rightarrow> ('a \<Rightarrow> exn + 'b) \<Rightarrow> exn + 'b" where
  "bind_exn m f = (case m of Inl e \<Rightarrow> Inl e | Inr x \<Rightarrow> f x)"

subsection \<open>Sorting a table by a column\<close>

fun is_str :: "cell \<Rightarrow> bool" where
  "is_str (Str s) = True"
| "is_str c = False"

fun to_float :: "cell \<Rightarrow> pyfloat" where
  "to_float (IntC i) = Fin (real_of_int i)"
| "to_float (Flt f) = f"
| "to_float (Str s) = NaN"

text \<open>Keys can be compared when all are text or all are numbers; Python raises
  \<^verbatim>\<open>TypeError\<close> on comparing text with a number.\<close>

definition comparable :: "cell list \<Rightarrow> bool" where
  "comparable ks = (list_all is_str ks \<or> list_all (\<lambda>k. \<not> is_str k) ks)"

text \<open>\<^verbatim>\<open>a <= b\<close> on cells: text by code points, numbers by value.\<close>

fun cell_le :: "cell \<Rightarrow> cell \<Rightarrow> bool" where
  "cell_le (Str a) (Str b) = (a \<le> b)"
| "cell_le (Str a) c = False"
| "cell_le c (Str b) = False"
| "cell_le c d = fle (to_float c) (to_float d)"

text \<open>A list of positions is a sorting permutation of the keys.\<close>

definition is_argsort :: "nat list \<Rightarrow> cell list \<Rightarrow> bool" where
  "is_argsort p ks =
     (distinct p \<and> set p = set [0..<length ks] \<and> sorted_wrt cell_le (map ((!) ks) p))"

text \<open>
  pandas' \<^verbatim>\<open>nargsort\<close> with \<^verbatim>\<open>na_position='last'\<close>: the keys that are not NaN are sorted
  by numpy, the NaN ones follow in their own order. For a descending sort the keys are
  reversed, sorted ascending, and the result reversed.
\<close>

definition nargsort :: "pylib \<Rightarrow> bool \<Rightarrow> cell list \<Rightarrow> exn + nat list" where
  "nargsort lib ascending items =
     (let idx = [0..<length items];
          non_nan_idx = filter (\<lambda>i. \<not> isna (items ! i)) idx;
          nan_idx = filter (\<lambda>i. isna (items ! i)) idx;
          non_nans = map ((!) items) non_nan_idx
      in if \<not> comparable non_nans then Inl TypeError
         else if ascending then
           Inr (map ((!) non_nan_idx) (argsort lib non_nans) @ nan_idx)
         else
           Inr (rev (map ((!) (rev non_nan_idx)) (argsort lib (rev non_nans))) @ nan_idx))"

text \<open>The values of one column, a missing cell being NaN.\<close>

definition col_values :: "cell dataframe \<Rightarrow> string \<Rightarrow> cell list" where
  "col_values df c = map (\<lambda>vals. get (series (columns df) vals) c (Flt NaN)) (rows df)"

definition sort_values :: "pylib \<Rightarrow> string \<Rightarrow> bool \<Rightarrow> cell dataframe \<Rightarrow> exn + cell dataframe" where
  "sort_values lib by ascending df =
     (if by \<notin> set (columns df) then Inl KeyError
      else bind_exn (nargsort lib ascending (col_values df by))
             (\<lambda>indexer. Inr (df\<lparr>rows := map ((!) (rows df)) indexer\<rparr>)))"

text \<open>\<^verbatim>\<open>df[[c1, ..., cn]]\<close>: \<^verbatim>\<open>KeyError\<close> unless every label is a column.\<close>

definition select :: "string list \<Rightarrow> cell dataframe \<Rightarrow> exn + cell dataframe" where
  "select cs df =
     (if \<not> set cs \<subseteq> set (columns df) then Inl KeyError
      else Inr \<lparr>columns = cs,
                rows = map (\<lambda>vals. map (\<lambda>c. get (series (columns df) vals) c (Flt NaN)) cs) (rows df)\<rparr>)"

subsection \<open>\<^verbatim>\<open>analyze_race_progression\<close>\<close>

record analysis =
  a_total_finishers :: nat
  total_classified :: nat
  dnf_count :: int
  average_laps :: cell
  position_changes :: "unit list"

definition analyze_race_progression :: "pylib \<Rightarrow> cell dataframe \<Rightarrow> exn + analysis" where
  "analyze_race_progression lib results_df =
     (let analysis = \<lparr>a_total_finishers = 0, total_classified = 0, dnf_count = 0,
                       average_laps = IntC 0, position_changes = []\<rparr>
      in if empty results_df then Inr analysis
         else if ''STATUS'' \<notin> set (columns results_df) then Inl KeyError
         else
           let n = length (rows results_df);
               k = length (filter (\<lambda>c. c = Str ''Classified'') (col_values results_df ''STATUS''));
               analysis = analysis\<lparr>a_total_finishers := n, total_classified := k,
                                   dnf_count := int n - int k\<rparr>
           in if ''LAPS'' \<in> set (columns results_df) then
                bind_exn (series_mean lib (col_values results_df ''LAPS''))
                  (\<lambda>m. Inr (analysis\<lparr>average_laps := Flt m\<rparr>))
              else Inr analysis)"

subsection \<open>\<^verbatim>\<open>identify_key_battles\<close>\<close>

record battle =
  position :: cell
  driver :: cell
  car_number :: cell
  gap :: pyfloat
  classification :: string

text \<open>The driver's name as \<^verbatim>\<open>identify_key_battles\<close> and \<^verbatim>\<open>generate_race_summary\<close>
  both compute it.\<close>

definition driver_name_of :: "pylib \<Rightarrow> (string \<rightharpoonup> cell) \<Rightarrow> cell" where
  "driver_name_of lib row =
     (let driver_name = get row ''DRIVER'' (Str '''');
          driver_name =
            (if \<not> truthy driver_name then
               Str (strip (py_str lib (get row ''DRIVER_FIRST'' (Str '''')) @ '' '' @
                           py_str lib (get row ''DRIVER_LAST'' (Str ''''))))
             else driver_name)
      in if truthy driver_name then driver_name else Str ''Unknown'')"

text \<open>The body of the loop for one row: the battle appended, if any. A
  \<^verbatim>\<open>ValueError\<close> of \<^verbatim>\<open>float\<close> is caught and the row left.\<close>

definition battle_of_row :: "pylib \<Rightarrow> pyfloat \<Rightarrow> nat \<Rightarrow> (string \<rightharpoonup> cell) \<Rightarrow> battle option" where
  "battle_of_row lib gap_threshold idx row =
     (let gap_str = py_str lib (get row ''GAP_PREV'' (Str ''''))
      in case gap_str of
           [] \<Rightarrow> None
         | c # rest \<Rightarrow>
             if c = CHR ''+'' then
               (case py_float rest of
                  None \<Rightarrow> None
                | Some g \<Rightarrow>
                    if fle g gap_threshold then
                      Some \<lparr>position = get row ''POSITION'' (IntC (int idx + 1)),
                            driver = driver_name_of lib row,
                            car_number = get row ''NUMBER'' (Str ''N/A''),
                            gap = g,
                            classification = ''Close Battle''\<rparr>
                    else None)
             else None)"

fun battles_loop ::
  "pylib \<Rightarrow> pyfloat \<Rightarrow> string list \<Rightarrow> (nat \<times> cell list) list \<Rightarrow> battle list \<Rightarrow> battle list" where
  "battles_loop lib gap_threshold cols [] battles = battles"
| "battles_loop lib gap_threshold cols ((idx, vals) # rest) battles =
     (if idx = 0 then battles_loop lib gap_threshold cols rest battles
      else
        (case battle_of_row lib gap_threshold idx (series cols vals) of
           Some b \<Rightarrow> battles_loop lib gap_threshold cols rest (battles @ [b])
         | None \<Rightarrow> battles_loop lib gap_threshold cols rest battles))"

text \<open>\<^verbatim>\<open>df.iterrows()\<close>: the rows with their index labels.\<close>

definition iterrows :: "'c dataframe \<Rightarrow> (nat \<times> 'c list) list" where
  "iterrows df = enumerate 0 (rows df)"

definition identify_key_battles :: "pylib \<Rightarrow> cell dataframe \<Rightarrow> pyfloat \<Rightarrow> battle list" where
  "identify_key_battles lib results_df gap_threshold =
     (if empty results_df \<or> ''GAP_PREV'' \<notin> set (columns results_df) then []
      else battles_loop lib gap_threshold (columns results_df) (iterrows results_df) [])"

subsection \<open>\<^verbatim>\<open>analyze_fastest_laps\<close>\<close>

definition fl_columns :: "string list" where
  "fl_columns = [''POSITION'', ''NUMBER'', ''DRIVER_FIRSTNAME'', ''DRIVER_SECONDNAME'',
                 ''FL_TIME'', ''FL_LAPNUM'', ''FL_KPH'', ''TEAM'']"

text \<open>\<^verbatim>\<open>fl_df['FL_RANK'] = range(1, len(fl_df) + 1)\<close> on a table without that column.\<close>

definition add_rank :: "cell dataframe \<Rightarrow> cell dataframe" where
  "add_rank df =
     \<lparr>columns = columns df @ [''FL_RANK''],
      rows = map (\<lambda>(i, vals). vals @ [IntC (int i + 1)]) (enumerate 0 (rows df))\<rparr>"

definition analyze_fastest_laps :: "pylib \<Rightarrow> cell dataframe \<Rightarrow> exn + cell dataframe" where
  "analyze_fastest_laps lib results_df =
     (if empty results_df \<or> ''FL_TIME'' \<notin> set (columns results_df) then Inr DataFrame
      else
        bind_exn (select fl_columns results_df) (\<lambda>fl_df.
        bind_exn (sort_values lib ''FL_TIME'' True fl_df) (\<lambda>fl_df.
        Inr (add_rank fl_df))))"

subsection \<open>\<^verbatim>\<open>calculate_consistency\<close>\<close>

record consistency =
  c_driver :: string
  c_car_number :: cell
  c_team :: cell
  best_lap :: pyfloat
  average_lap :: pyfloat
  std_dev :: pyfloat
  consistency_score :: pyfloat

text \<open>The conversion of a time string to seconds, inside the \<^verbatim>\<open>try\<close>: \<open>None\<close> when
  the string has no colon or \<^verbatim>\<open>float\<close> raises \<^verbatim>\<open>ValueError\<close>.\<close>

definition lap_seconds :: "string \<Rightarrow> pyfloat option" where
  "lap_seconds time_str =
     (if CHR '':'' \<in> set time_str then
        (case split_on CHR '':'' time_str of
           p0 # p1 # ps \<Rightarrow>
             (case py_float p0 of
                None \<Rightarrow> None
              | Some m \<Rightarrow>
                  (case py_float p1 of
                     None \<Rightarrow> None
                   | Some s \<Rightarrow> Some (fadd (fmul m (Fin 60)) s)))
         | _ \<Rightarrow> None)
      else None)"

text \<open>One best-lap field of a row: the seconds appended to \<^verbatim>\<open>lap_times\<close>, if any.\<close>

definition lap_time_of :: "pylib \<Rightarrow> (string \<rightharpoonup> cell) \<Rightarrow> nat \<Rightarrow> pyfloat option" where
  "lap_time_of lib row i =
     (let lap_col = ''BESTLAP_'' @ str_nat i
      in case row lap_col of
           None \<Rightarrow> None
         | Some c \<Rightarrow> if isna c then None else lap_seconds (py_str lib c))"

fun lap_times_loop :: "pylib \<Rightarrow> (string \<rightharpoonup> cell) \<Rightarrow> nat list \<Rightarrow> pyfloat list \<Rightarrow> pyfloat list" where
  "lap_times_loop lib row [] lap_times = lap_times"
| "lap_times_loop lib row (i # is) lap_times =
     (case lap_time_of lib row i of
        Some seconds \<Rightarrow> lap_times_loop lib row is (lap_times @ [seconds])
      | None \<Rightarrow> lap_times_loop lib row is lap_times)"

text \<open>The list \<^verbatim>\<open>lap_times\<close> of a row after the loop over the fields 1 to 10.\<close>

definition lap_times :: "pylib \<Rightarrow> (string \<rightharpoonup> cell) \<Rightarrow> pyfloat list" where
  "lap_times lib row = lap_times_loop lib row [1..<11] []"

definition consistency_of :: "pylib \<Rightarrow> (string \<rightharpoonup> cell) \<Rightarrow> pyfloat list \<Rightarrow> exn + consistency" where
  "consistency_of lib row ts =
     bind_exn (getitem row ''NUMBER'') (\<lambda>num.
     bind_exn (py_min ts) (\<lambda>best.
     Inr \<lparr>c_driver = py_str lib (get row ''FIRSTNAME'' (Str '''')) @ '' '' @
                      py_str lib (get row ''SECONDNAME'' (Str '''')),
          c_car_number = num,
          c_team = get row ''TEAM'' (Str ''''),
          best_lap = best,
          average_lap = np_mean ts,
          std_dev = np_std ts,
          consistency_score = fdiv (Fin 1) (fadd (np_std ts) (Fin 0.001))\<rparr>))"

fun consistency_loop ::
  "pylib \<Rightarrow> string list \<Rightarrow> cell list list \<Rightarrow> consistency list \<Rightarrow> exn + consistency list" where
  "consistency_loop lib cols [] consistency_data = Inr consistency_data"
| "consistency_loop lib cols (vals # rest) consistency_data =
     (let row = series cols vals
      in if 3 \<le> length (lap_times lib row) then
           bind_exn (consistency_of lib row (lap_times lib row)) (\<lambda>consistency.
             consistency_loop lib cols rest (consistency_data @ [consistency]))
         else consistency_loop lib cols rest consistency_data)"

text \<open>The table returned is given by its rows, one record each; \<^verbatim>\<open>pd.DataFrame()\<close> is
  the empty list.\<close>

definition calculate_consistency :: "pylib \<Rightarrow> cell dataframe \<Rightarrow> exn + consistency list" where
  "calculate_consistency lib best_laps_df =
     (if empty best_laps_df then Inr []
      else
        bind_exn (consistency_loop lib (columns best_laps_df) (rows best_laps_df) [])
          (\<lambda>consistency_data.
             if consistency_data \<noteq> [] then
               bind_exn (nargsort lib False (map (\<lambda>c. Flt (consistency_score c)) consistency_data))
                 (\<lambda>indexer. Inr (map ((!) consistency_data) indexer))
             else Inr []))"

subsection \<open>\<^verbatim>\<open>get_position_changes\<close>\<close>

record change_info =
  p_driver :: string
  p_car_number :: cell
  start_position :: int
  finish_position :: int
  positions_gained :: int

definition change_of_row :: "pylib \<Rightarrow> string \<Rightarrow> (string \<rightharpoonup> cell) \<Rightarrow> exn + change_info" where
  "change_of_row lib grid_position_col row =
     bind_exn (getitem row grid_position_col) (\<lambda>g.
     bind_exn (py_int g) (\<lambda>start_pos.
     bind_exn (getitem row ''POSITION'') (\<lambda>p.
     bind_exn (py_int p) (\<lambda>finish_pos.
     bind_exn (getitem row ''NUMBER'') (\<lambda>num.
     Inr \<lparr>p_driver = py_str lib (get row ''DRIVER_FIRSTNAME'' (Str '''')) @ '' '' @
                      py_str lib (get row ''DRIVER_SECONDNAME'' (Str '''')),
          p_car_number = num,
          start_position = start_pos,
          finish_position = finish_pos,
          positions_gained = start_pos - finish_pos\<rparr>)))))"


text \<open>The loop catches \<^verbatim>\<open>ValueError\<close> and \<^verbatim>\<open>KeyError\<close>; any other exception leaves
  the function.\<close>

fun changes_loop ::
  "pylib \<Rightarrow> string \<Rightarrow> string list \<Rightarrow> cell list list \<Rightarrow> change_info list \<Rightarrow> exn + change_info list" where
  "changes_loop lib grid_position_col cols [] changes = Inr changes"
| "changes_loop lib grid_position_col cols (vals # rest) changes =
     (case change_of_row lib grid_position_col (series cols vals) of
        Inr change_info \<Rightarrow> changes_loop lib grid_position_col cols rest (changes @ [change_info])
      | Inl e \<Rightarrow>
          if e = ValueError \<or> e = KeyError then changes_loop lib grid_position_col cols rest changes
          else Inl e)"

text \<open>\<^verbatim>\<open>changes.sort(key=..., reverse=True)\<close>: Python's sort is stable, also in reverse.\<close>

definition get_position_changes :: "pylib \<Rightarrow> cell dataframe \<Rightarrow> string \<Rightarrow> exn + change_info list" where
  "get_position_changes lib results_df grid_position_col =
     (if empty results_df \<or> grid_position_col \<notin> set (columns results_df) then Inr []
      else
        bind_exn (changes_loop lib grid_position_col (columns results_df) (rows results_df) [])
          (\<lambda>changes. Inr (sort_key (\<lambda>x. - positions_gained x) changes)))"

subsection \<open>\<^verbatim>\<open>generate_race_summary\<close>\<close>

record winner_info =
  w_driver :: cell
  w_car_number :: cell
  w_team :: cell
  w_laps :: cell

record fastest_info =
  f_driver :: cell
  f_time :: cell
  f_lap :: cell
  f_speed :: cell

record summary =
  winner :: "winner_info option"
  pole_position :: "unit option"
  fastest_lap :: "fastest_info option"
  total_finishers :: nat
  close_battles :: "battle list"
  top_performers :: "unit list"

definition generate_race_summary :: "pylib \<Rightarrow> (string \<rightharpoonup> cell dataframe) \<Rightarrow> exn + summary" where
  "generate_race_summary lib race_data =
     (let summary = \<lparr>winner = None, pole_position = None, fastest_lap = None,
                      total_finishers = 0, close_battles = [], top_performers = []\<rparr>
      in case race_data ''results'' of
           None \<Rightarrow> Inr summary
         | Some results_df \<Rightarrow>
             if empty results_df then Inr summary
             else
               let summary =
                     (case rows results_df of
                        [] \<Rightarrow> summary
                      | vals # _ \<Rightarrow>
                          let first_row = series (columns results_df) vals
                          in summary\<lparr>winner := Some
                               \<lparr>w_driver = driver_name_of lib first_row,
                                w_car_number = get first_row ''NUMBER'' (Str ''N/A''),
                                w_team = get first_row ''TEAM'' (Str ''N/A''),
                                w_laps = get first_row ''LAPS'' (IntC 0)\<rparr>\<rparr>)
               in bind_exn (analyze_fastest_laps lib results_df) (\<lambda>fl_df.
                    let summary =
                          (case rows fl_df of
                             vals # _ \<Rightarrow>
                               if empty fl_df then summary
                               else
                                 let fastest = series (columns fl_df) vals
                                 in summary\<lparr>fastest_lap := Some
                                      \<lparr>f_driver = driver_name_of lib fastest,
                                       f_time = get fastest ''FL_TIME''
                                                  (get fastest ''BEST_LAP'' (Str ''N/A'')),
                                       f_lap = get fastest ''FL_LAPNUM''
                                                 (get fastest ''BEST_LAP_NUM'' (Str '''')),
                                       f_speed = get fastest ''FL_KPH''
                                                   (get fastest ''BEST_LAP_SPEED'' (Str ''''))\<rparr>\<rparr>
                           | [] \<Rightarrow> summary)
                    in Inr (summary\<lparr>close_battles := identify_key_battles lib results_df (Fin 5),
                                    total_finishers := length (rows results_df)\<rparr>)))"

section \<open>CSVParser: the four entry points\<close>

text \<open>
  What the parser uses of pandas: \<^verbatim>\<open>read_csv\<close> (the file system included), which
  returns a table or raises, and the conversions of a column by \<^verbatim>\<open>to_numeric\<close> and
  \<^verbatim>\<open>to_datetime\<close> with \<^verbatim>\<open>errors='coerce'\<close>.
\<close>

record 'c pandas =
  read_csv :: "string \<Rightarrow> string \<Rightarrow> exn + 'c dataframe"
  to_numeric :: "'c list \<Rightarrow> 'c list"
  to_datetime :: "'c list \<Rightarrow> 'c list"

text \<open>\<^verbatim>\<open>df = self.normalize_columns(df)\<close> on a table no one else holds: the table
  returned. The reference 0 is valid in the heap \<open>[df]\<close>, so \<open>None\<close> does not occur.\<close>

definition normalize_owned :: "'c dataframe \<Rightarrow> 'c dataframe" where
  "normalize_owned df = (case normalize_columns [df] 0 of Some (r, h) \<Rightarrow> h ! r | None \<Rightarrow> df)"

text \<open>\<^verbatim>\<open>df[col]\<close> as one column: under a label that occurs twice pandas gives a table,
  and \<^verbatim>\<open>to_numeric\<close> raises \<^verbatim>\<open>TypeError\<close> on it.\<close>

definition getcol :: "'c dataframe \<Rightarrow> string \<Rightarrow> exn + 'c list" where
  "getcol df col =
     (if col \<notin> set (columns df) then Inl KeyError
      else if 1 < count_list (columns df) col then Inl TypeError
      else Inr (List.map_filter (\<lambda>vals. series (columns df) vals col) (rows df)))"

text \<open>\<^verbatim>\<open>df[col] = values\<close>: the cells under that label are replaced, or a new last
  column is added.\<close>

definition setcol :: "'c dataframe \<Rightarrow> string \<Rightarrow> 'c list \<Rightarrow> 'c dataframe" where
  "setcol df col values =
     (if col \<in> set (columns df) then
        df\<lparr>rows := map (\<lambda>(vals, v). map (\<lambda>(c, x). if c = col then v else x) (zip (columns df) vals))
                        (zip (rows df) values)\<rparr>
      else
        \<lparr>columns = columns df @ [col],
         rows = map (\<lambda>(vals, v). vals @ [v]) (zip (rows df) values)\<rparr>)"

text \<open>\<^verbatim>\<open>df[col] = pd.to_numeric(df[col], errors='coerce')\<close>.\<close>

definition coerce_numeric :: "'c pandas \<Rightarrow> string \<Rightarrow> 'c dataframe \<Rightarrow> exn + 'c dataframe" where
  "coerce_numeric pd col df =
     bind_exn (getcol df col) (\<lambda>s. Inr (setcol df col (to_numeric pd s)))"

text \<open>The loop over \<^verbatim>\<open>numeric_cols\<close>.\<close>

fun coerce_all :: "'c pandas \<Rightarrow> string list \<Rightarrow> 'c dataframe \<Rightarrow> exn + 'c dataframe" where
  "coerce_all pd [] df = Inr df"
| "coerce_all pd (col # cols) df =
     (if col \<in> set (columns df) then bind_exn (coerce_numeric pd col df) (coerce_all pd cols)
      else coerce_all pd cols df)"

text \<open>\<^verbatim>\<open>except Exception\<close>: whatever the \<^verbatim>\<open>try\<close> block raises, the empty table is
  returned.\<close>

definition except_empty :: "exn + 'c dataframe \<Rightarrow> exn + 'c dataframe" where
  "except_empty body = (case body of Inr df \<Rightarrow> Inr df | Inl e \<Rightarrow> Inr DataFrame)"

definition parse_race_results :: "'c pandas \<Rightarrow> string \<Rightarrow> string \<Rightarrow> exn + 'c dataframe" where
  "parse_race_results pd file_path delimiter =
     except_empty
       (bind_exn (read_csv pd file_path delimiter) (\<lambda>df.
          coerce_all pd [''POSITION'', ''NUMBER'', ''LAPS''] (normalize_owned df)))"

definition parse_weather_data :: "'c pandas \<Rightarrow> string \<Rightarrow> string \<Rightarrow> exn + 'c dataframe" where
  "parse_weather_data pd file_path delimiter =
     except_empty
       (bind_exn (read_csv pd file_path delimiter) (\<lambda>df.
        bind_exn
          (if ''TIME_UTC_SECONDS'' \<in> set (columns (normalize_owned df)) then
             bind_exn (coerce_numeric pd ''TIME_UTC_SECONDS'' (normalize_owned df)) (\<lambda>df.
             bind_exn (getcol df ''TIME_UTC_SECONDS'') (\<lambda>s.
             Inr (setcol df ''timestamp'' (to_datetime pd s))))
           else Inr (normalize_owned df))
          (coerce_all pd [''AIR_TEMP'', ''TRACK_TEMP'', ''HUMIDITY'', ''PRESSURE'',
                          ''WIND_SPEED'', ''WIND_DIRECTION'', ''RAIN''])))"

definition parse_lap_times :: "'c pandas \<Rightarrow> string \<Rightarrow> string \<Rightarrow> exn + 'c dataframe" where
  "parse_lap_times pd file_path delimiter =
     except_empty
       (bind_exn (read_csv pd file_path delimiter) (\<lambda>df.
          coerce_all pd [''NUMBER''] (normalize_owned df)))"

definition parse_best_laps :: "'c pandas \<Rightarrow> string \<Rightarrow> string \<Rightarrow> exn + 'c dataframe" where
  "parse_best_laps pd file_path delimiter =
     except_empty
       (bind_exn (read_csv pd file_path delimiter) (\<lambda>df.
          coerce_all pd [''NUMBER'', ''TOTAL_DRIVER_LAPS''] (normalize_owned df)))"

section \<open>An instance of the library, for evaluation\<close>

text \<open>The digits of a float as Python prints them when they are few: sign, integer part,
  point and up to 17 decimals.\<close>

fun frac_digits :: "nat \<Rightarrow> real \<Rightarrow> string" where
  "frac_digits 0 x = []"
| "frac_digits (Suc n) x =
     (let d = \<lfloor>10 * x\<rfloor>
      in digit_char (nat d) #
         (if 10 * x - real_of_int d = 0 then [] else frac_digits n (10 * x - real_of_int d)))"

fun repr_digits :: "pyfloat \<Rightarrow> string" where
  "repr_digits NaN = ''nan''"
| "repr_digits PInf = ''inf''"
| "repr_digits NInf = ''-inf''"
| "repr_digits (Fin r) =
     (if r < 0 then ''-'' else '''') @ str_nat (nat \<lfloor>\<bar>r\<bar>\<rfloor>) @ ''.'' @
     frac_digits 17 (\<bar>r\<bar> - real_of_int \<lfloor>\<bar>r\<bar>\<rfloor>)"

text \<open>An insertion sort on positions: a stable sorting permutation.\<close>

fun insert_pos :: "cell list \<Rightarrow> nat \<Rightarrow> nat list \<Rightarrow> nat list" where
  "insert_pos ks i [] = [i]"
| "insert_pos ks i (j # js) =
     (if cell_le (ks ! i) (ks ! j) then i # j # js else j # insert_pos ks i js)"

definition insertion_argsort :: "cell list \<Rightarrow> nat list" where
  "insertion_argsort ks = foldr (insert_pos ks) [0..<length ks] []"

text \<open>The mean of the numbers of a column that are not NaN; text raises.\<close>

definition mean_skipna :: "cell list \<Rightarrow> exn + pyfloat" where
  "mean_skipna cs =
     (if list_ex is_str cs then Inl TypeError
      else Inr (np_mean (map to_float (filter (\<lambda>c. \<not> isna c) cs))))"

definition lib0 :: pylib where
  "lib0 = \<lparr>repr_float = repr_digits, argsort = insertion_argsort, series_mean = mean_skipna\<rparr>"

text \<open>A file system with one results file that has a header row only, and a conversion
  to numbers that reads text with \<^verbatim>\<open>float\<close>.\<close>

definition numeric_or_nan :: "cell \<Rightarrow> cell" where
  "numeric_or_nan c =
     (case c of
        Str s \<Rightarrow> (case py_float s of Some f \<Rightarrow> Flt f | None \<Rightarrow> Flt NaN)
      | _ \<Rightarrow> c)"

definition pd0 :: "cell pandas" where
  "pd0 = \<lparr>read_csv =
            (\<lambda>file_path delimiter.
               if file_path = ''results.csv'' \<and> delimiter = '';''
               then Inr \<lparr>columns = [''POS'', '' Car '', ''LAPS''], rows = []\<rparr>
               else Inl FileNotFoundError),
          to_numeric = map numeric_or_nan,
          to_datetime = map numeric_or_nan\<rparr>"

section \<open>Column normalisation: properties\<close>

lemma map_of_build_normalized:
  "map_of (build_normalized cols acc) c =
     (if c \<in> set cols \<and> match_standard column_mappings (upper c) \<noteq> None
      then match_standard column_mappings (upper c) else map_of acc c)"
proof (induction cols arbitrary: acc)
  case Nil
  then show ?case by simp
next
  case (Cons a cols)
  then show ?case
    by (cases "match_standard column_mappings (upper a)") (auto simp: update_conv)
qed

lemma build_normalized_Nil_iff:
  "build_normalized cols acc = [] \<longleftrightarrow>
     acc = [] \<and> (\<forall>c \<in> set cols. match_standard column_mappings (upper c) = None)"
proof (induction cols arbitrary: acc)
  case Nil
  then show ?case by simp
next
  case (Cons a cols)
  show ?case
  proof (cases "match_standard column_mappings (upper a)")
    case None
    then show ?thesis using Cons.IH [of acc] by simp
  next
    case (Some n)
    have "AList.update a n acc \<noteq> []"
      by (cases acc) (auto split: if_splits)
    then show ?thesis using Some Cons.IH [of "AList.update a n acc"] by simp
  qed
qed

lemma renamed_label:
  "c \<in> set cols \<Longrightarrow>
   (case map_of (build_normalized cols []) c of Some n \<Rightarrow> n | None \<Rightarrow> c) =
   (case match_standard column_mappings (upper c) of Some n \<Rightarrow> n | None \<Rightarrow> c)"
  by (simp add: map_of_build_normalized split: option.splits)

text \<open>The columns of the table that \<^verbatim>\<open>normalize_columns\<close> returns.\<close>

lemma normalize_columns_returned:
  assumes "normalize_columns h r = Some (r', h')"
  shows "columns (h' ! r') =
           map (\<lambda>c. case match_standard column_mappings (upper (strip c)) of
                      Some n \<Rightarrow> n | None \<Rightarrow> strip c) (columns (h ! r))"
    and "rows (h' ! r') = rows (h ! r)"
proof -
  let ?cs = "map strip (columns (h ! r))"
  let ?df = "(h ! r)\<lparr>columns := ?cs\<rparr>"
  from assms have r: "r < length h"
    by (auto simp: normalize_columns_def split: if_splits)
  show "columns (h' ! r') =
           map (\<lambda>c. case match_standard column_mappings (upper (strip c)) of
                      Some n \<Rightarrow> n | None \<Rightarrow> strip c) (columns (h ! r))"
  proof (cases "build_normalized ?cs [] = []")
    case True
    then have none: "\<forall>c \<in> set ?cs. match_standard column_mappings (upper c) = None"
      by (simp add: build_normalized_Nil_iff)
    from True assms r have "r' = r" "h' = h[r := ?df]"
      by (auto simp: normalize_columns_def Let_def)
    then have "columns (h' ! r') = ?cs" using r by simp
    also have "?cs = map (\<lambda>c. case match_standard column_mappings (upper (strip c)) of
                      Some n \<Rightarrow> n | None \<Rightarrow> strip c) (columns (h ! r))"
      using none by (auto split: option.splits)
    finally show ?thesis .
  next
    case False
    with assms r have "r' = length h" "h' = h[r := ?df] @ [rename (build_normalized ?cs []) ?df]"
      by (auto simp: normalize_columns_def Let_def)
    then have "columns (h' ! r') =
        map (\<lambda>c. case map_of (build_normalized ?cs []) c of Some n \<Rightarrow> n | None \<Rightarrow> c) ?cs"
      by (simp add: rename_def nth_append)
    also have "\<dots> = map (\<lambda>c. case match_standard column_mappings (upper c) of
                      Some n \<Rightarrow> n | None \<Rightarrow> c) ?cs"
      by (rule map_cong [OF refl]) (rule renamed_label)
    finally show ?thesis by (simp add: comp_def)
  qed
  show "rows (h' ! r') = rows (h ! r)"
    using assms r
    by (auto simp: normalize_columns_def Let_def rename_def nth_append split: if_splits)
qed

lemma match_standard_first:
  assumes "k < length reg"
    and "u \<in> set (map upper (snd (reg ! k)))"
    and "\<forall>j<k. u \<notin> set (map upper (snd (reg ! j)))"
  shows "match_standard reg u = Some (upper (fst (reg ! k)))"
  using assms
proof (induction reg arbitrary: k)
  case Nil
  then show ?case by simp
next
  case (Cons e reg)
  obtain s vs where e: "e = (s, vs)" by (cases e)
  show ?case
  proof (cases k)
    case 0
    with Cons.prems e show ?thesis by simp
  next
    case (Suc k')
    from Cons.prems(3) Suc have "u \<notin> set (map upper (snd ((e # reg) ! 0)))" by blast
    then have no: "u \<notin> set (map upper vs)" using e by simp
    have "\<forall>j<k'. u \<notin> set (map upper (snd (reg ! j)))"
    proof (intro allI impI)
      fix j assume "j < k'"
      then have "Suc j < k" using Suc by simp
      with Cons.prems(3) have "u \<notin> set (map upper (snd ((e # reg) ! Suc j)))" by blast
      then show "u \<notin> set (map upper (snd (reg ! j)))" by simp
    qed
    with Cons.IH [of k'] Cons.prems Suc have "match_standard reg u = Some (upper (fst (reg ! k')))"
      by simp
    with no e Suc show ?thesis by simp
  qed
qed


lemma returned_nth:
  assumes "normalize_columns h r = Some (r', h')" and "i < length (columns (h ! r))"
  shows "columns (h' ! r') ! i =
           (case match_standard column_mappings (upper (strip (columns (h ! r) ! i))) of
              Some n \<Rightarrow> n | None \<Rightarrow> strip (columns (h ! r) ! i))"
  using assms by (simp add: normalize_columns_returned(1))




text \<open>
  C8: when the stripped name of a column matches the registry entries at positions
  \<open>k < k'\<close> and none before \<open>k\<close>, the column is renamed to the canonical name of
  entry \<open>k\<close>.
\<close>

theorem first_match_wins:
  assumes "normalize_columns h r = Some (r', h')" and "i < length (columns (h ! r))"
    and "k < k'" and "k' < length column_mappings"
    and "matches_alias (strip (columns (h ! r) ! i)) (column_mappings ! k)"
    and "matches_alias (strip (columns (h ! r) ! i)) (column_mappings ! k')"
    and "\<forall>j<k. \<not> matches_alias (strip (columns (h ! r) ! i)) (column_mappings ! j)"
  shows "columns (h' ! r') ! i = upper (fst (column_mappings ! k))"
proof -
  from assms(3,4) have "k < length column_mappings" by simp
  with assms(5,7)
  have "match_standard column_mappings (upper (strip (columns (h ! r) ! i))) =
      Some (upper (fst (column_mappings ! k)))"
    by (intro match_standard_first) (auto simp: matches_alias_def)
  then show ?thesis using returned_nth [OF assms(1,2)] by simp
qed


text \<open>C8, in particular: \<^verbatim>\<open>CLASS_TYPE\<close> matches \<^verbatim>\<open>status\<close> (entry 13) and \<^verbatim>\<open>class\<close>
  (entry 14) and is renamed to \<^verbatim>\<open>STATUS\<close>.\<close>

theorem first_match_wins_witness:
  "normalize_columns [\<lparr>columns = [''CLASS_TYPE''], rows = [[Str ''Am'']]\<rparr>] 0 =
     Some (1, [\<lparr>columns = [''CLASS_TYPE''], rows = [[Str ''Am'']]\<rparr>,
               \<lparr>columns = [''STATUS''], rows = [[Str ''Am'']]\<rparr>])
   \<and> fst (column_mappings ! 13) = ''status'' \<and> fst (column_mappings ! 14) = ''class''
   \<and> matches_alias ''CLASS_TYPE'' (column_mappings ! 13)
   \<and> matches_alias ''CLASS_TYPE'' (column_mappings ! 14)
   \<and> columns ([\<lparr>columns = [''CLASS_TYPE''], rows = [[Str ''Am'']]\<rparr>,
               \<lparr>columns = [''STATUS''], rows = [[Str ''Am'']]\<rparr>] ! 1) ! 0 = ''STATUS''"
proof -
  let ?h = "[\<lparr>columns = [''CLASS_TYPE''], rows = [[Str ''Am'']]\<rparr>]"
  let ?h' = "[\<lparr>columns = [''CLASS_TYPE''], rows = [[Str ''Am'']]\<rparr>,
               \<lparr>columns = [''STATUS''], rows = [[Str ''Am'']]\<rparr>]"
  have e: "normalize_columns ?h 0 = Some (1, ?h')"
    by code_simp
  have i: "0 < length (columns (?h ! 0))" by simp
  have s: "strip (columns (?h ! 0) ! 0) = ''CLASS_TYPE''" by code_simp
  have m13: "matches_alias ''CLASS_TYPE'' (column_mappings ! 13)" by code_simp
  have m14: "matches_alias ''CLASS_TYPE'' (column_mappings ! 14)" by code_simp
  have "\<forall>j\<in>{0..<13}. \<not> matches_alias ''CLASS_TYPE'' (column_mappings ! j)"
    by code_simp
  then have no: "\<forall>j<13. \<not> matches_alias ''CLASS_TYPE'' (column_mappings ! j)"
    by simp
  have l: "(13::nat) < 14" "14 < length column_mappings" by (simp_all add: column_mappings_def)
  have "columns (?h' ! 1) ! 0 = upper (fst (column_mappings ! 13))"
    by (rule first_match_wins [OF e i l, unfolded s, OF m13 m14 no])
  moreover have "upper (fst (column_mappings ! 13)) = ''STATUS''" by code_simp
  ultimately have c: "columns (?h' ! 1) ! 0 = ''STATUS''" by simp
  have f: "fst (column_mappings ! 13) = ''status''" "fst (column_mappings ! 14) = ''class''"
    by (simp_all add: column_mappings_def)
  from e f m13 m14 c show ?thesis by blast
qed



section \<open>RaceAnalyzer: properties\<close>

subsection \<open>Close battles\<close>







subsection \<open>Lap times\<close>

lemma split_on_not_Nil: "split_on sep s \<noteq> []"
  by (induction s) (auto split: list.splits)








subsection \<open>Position changes\<close>










subsection \<open>Sorting permutations\<close>

lemma mset_map_nth_perm:
  assumes "distinct p" and "set p = set [0..<length xs]"
  shows "mset (map ((!) xs) p) = mset xs"
proof -
  from assms(2) have "mset p = mset [0..<length xs]"
    by (rule iffD1 [OF set_eq_iff_mset_eq_distinct [OF assms(1) distinct_upt]])
  then have "mset (map ((!) xs) p) = mset (map ((!) xs) [0..<length xs])"
    by (metis mset_map)
  then show ?thesis by (simp add: map_nth)
qed

lemma map_nth_filter_idx:
  "map ((!) xs) (filter (\<lambda>i. P (xs ! i)) [0..<length xs]) = filter P xs"
proof (induction xs rule: rev_induct)
  case Nil
  then show ?case by simp
next
  case (snoc x xs)
  have a: "filter (\<lambda>i. P ((xs @ [x]) ! i)) [0..<length xs] =
           filter (\<lambda>i. P (xs ! i)) [0..<length xs]"
    by (rule filter_cong) (auto simp: nth_append)
  have b: "map ((!) (xs @ [x])) (filter (\<lambda>i. P (xs ! i)) [0..<length xs]) =
           map ((!) xs) (filter (\<lambda>i. P (xs ! i)) [0..<length xs])"
    by (rule map_cong) (auto simp: nth_append)
  show ?case by (simp add: a b snoc.IH)
qed

text \<open>The keys of a descending \<^verbatim>\<open>nargsort\<close>, in the order of the result: those that are
  not NaN, descending, then the NaN ones; the result is a permutation of the positions.\<close>

lemma nargsort_descending:
  assumes cmp: "comparable (filter (\<lambda>c. \<not> isna c) items)"
    and srt: "is_argsort (argsort lib (rev (filter (\<lambda>c. \<not> isna c) items)))
                (rev (filter (\<lambda>c. \<not> isna c) items))"
  shows "\<exists>ix. nargsort lib False items = Inr ix \<and> mset ix = mset [0..<length items] \<and>
           (\<exists>ks. map ((!) items) ix = ks @ filter isna items \<and>
                  mset ks = mset (filter (\<lambda>c. \<not> isna c) items) \<and>
                  sorted_wrt (\<lambda>a b. cell_le b a) ks)"
proof -
  let ?n = "length items"
  let ?nni = "filter (\<lambda>i. \<not> isna (items ! i)) [0..<?n]"
  let ?ni = "filter (\<lambda>i. isna (items ! i)) [0..<?n]"
  let ?nn = "filter (\<lambda>c. \<not> isna c) items"
  let ?p = "argsort lib (rev ?nn)"
  have nn: "map ((!) items) ?nni = ?nn" by (rule map_nth_filter_idx)
  have na: "map ((!) items) ?ni = filter isna items" by (rule map_nth_filter_idx)
  have len: "length ?nni = length ?nn" using nn by (metis length_map)
  from srt have d: "distinct ?p" and s: "set ?p = set [0..<length (rev ?nn)]"
    and o: "sorted_wrt cell_le (map ((!) (rev ?nn)) ?p)"
    by (simp_all add: is_argsort_def)
  let ?ix = "rev (map ((!) (rev ?nni)) ?p) @ ?ni"
  have res: "nargsort lib False items = Inr ?ix"
    using cmp by (simp add: nargsort_def Let_def nn)
  have "mset (map ((!) (rev ?nni)) ?p) = mset (rev ?nni)"
    by (rule mset_map_nth_perm [OF d]) (use s len in simp)
  moreover have "mset ?nni + mset ?ni = mset [0..<?n]"
    using multiset_partition [of "mset [0..<?n]" "\<lambda>i. \<not> isna (items ! i)"] by simp
  ultimately have perm: "mset ?ix = mset [0..<?n]"
    by simp
  have inb: "j < length ?nn" if "j \<in> set ?p" for j
    using that s by simp
  have "map ((!) items \<circ> (!) (rev ?nni)) ?p = map ((!) (rev ?nn)) ?p"
  proof (rule map_cong [OF refl])
    fix j assume "j \<in> set ?p"
    then have j: "j < length ?nni" using inb len by simp
    have "rev ?nn ! j = map ((!) items) (rev ?nni) ! j"
      by (simp only: nn [symmetric] rev_map)
    also have "\<dots> = items ! (rev ?nni ! j)" using j by simp
    finally show "((!) items \<circ> (!) (rev ?nni)) j = rev ?nn ! j" by simp
  qed
  then have keys: "map ((!) items) ?ix = rev (map ((!) (rev ?nn)) ?p) @ filter isna items"
    by (simp add: na rev_map)
  have "mset (map ((!) (rev ?nn)) ?p) = mset (rev ?nn)"
    by (rule mset_map_nth_perm [OF d]) (use s in simp)
  then have m: "mset (rev (map ((!) (rev ?nn)) ?p)) = mset ?nn" by simp
  have so: "sorted_wrt (\<lambda>a b. cell_le b a) (rev (map ((!) (rev ?nn)) ?p))"
    using o by (simp add: sorted_wrt_rev)
  from res perm keys m so show ?thesis by blast
qed

subsection \<open>Consistency\<close>

lemma lap_times_loop_map_filter:
  "lap_times_loop lib row is acc = acc @ List.map_filter (lap_time_of lib row) is"
  by (induction "is" arbitrary: acc) (auto split: option.splits)

lemma lap_times_map_filter:
  "lap_times lib row = List.map_filter (lap_time_of lib row) [1..<11]"
  by (simp add: lap_times_def lap_times_loop_map_filter)

lemma consistency_of_Inr_iff:
  "consistency_of lib row ts = Inr c \<longleftrightarrow>
     (\<exists>n best. row ''NUMBER'' = Some n \<and> py_min ts = Inr best \<and>
        c = \<lparr>c_driver = py_str lib (get row ''FIRSTNAME'' (Str '''')) @ '' '' @
                         py_str lib (get row ''SECONDNAME'' (Str '''')),
             c_car_number = n, c_team = get row ''TEAM'' (Str ''''),
             best_lap = best, average_lap = np_mean ts, std_dev = np_std ts,
             consistency_score = fdiv (Fin 1) (fadd (np_std ts) (Fin 0.001))\<rparr>)"
  by (auto simp: consistency_of_def bind_exn_def getitem_def split: option.splits sum.splits)

lemma consistency_of_total:
  assumes "row ''NUMBER'' \<noteq> None" and "ts \<noteq> []"
  shows "\<exists>c. consistency_of lib row ts = Inr c"
proof -
  from assms(2) obtain t ts' where "ts = t # ts'" by (cases ts) auto
  then have "\<exists>best. py_min ts = Inr best" by simp
  with assms(1) show ?thesis by (auto simp: consistency_of_Inr_iff)
qed

lemma consistency_loop_map_filter:
  assumes "\<forall>vals \<in> set rs. series cols vals ''NUMBER'' \<noteq> None"
  shows "consistency_loop lib cols rs acc =
     Inr (acc @ List.map_filter
                  (\<lambda>vals. if 3 \<le> length (lap_times lib (series cols vals))
                           then (case consistency_of lib (series cols vals)
                                        (lap_times lib (series cols vals)) of
                                   Inr c \<Rightarrow> Some c | Inl e \<Rightarrow> None)
                           else None) rs)"
  using assms
proof (induction rs arbitrary: acc)
  case Nil
  then show ?case by simp
next
  case (Cons vals rs)
  show ?case
  proof (cases "3 \<le> length (lap_times lib (series cols vals))")
    case True
    then have "lap_times lib (series cols vals) \<noteq> []" by auto
    with Cons.prems obtain c where
      "consistency_of lib (series cols vals) (lap_times lib (series cols vals)) = Inr c"
      using consistency_of_total by fastforce
    with True Cons show ?thesis by (simp add: bind_exn_def)
  next
    case False
    with Cons show ?thesis by simp
  qed
qed

text \<open>The statistics of finite lap times.\<close>

lemma foldl_min_Fin:
  "foldl (\<lambda>m y. if flt y m then y else m) (Fin t) (map Fin ts) = Fin (Min (set (t # ts)))"
proof (induction ts arbitrary: t)
  case Nil
  then show ?case by simp
next
  case (Cons u ts)
  have "(if flt (Fin u) (Fin t) then Fin u else Fin t) = Fin (min u t)"
    by (auto simp: flt_def min_def)
  then have "foldl (\<lambda>m y. if flt y m then y else m) (Fin t) (map Fin (u # ts)) =
        Fin (Min (set (min u t # ts)))"
    using Cons.IH [of "min u t"] by simp
  also have "Min (set (min u t # ts)) = Min (set (t # u # ts))"
    by (cases "ts = []") (auto simp: min.commute min.assoc)
  finally show ?case .
qed

lemma py_min_Fin: "ts \<noteq> [] \<Longrightarrow> py_min (map Fin ts) = Inr (Fin (Min (set ts)))"
  by (cases ts) (simp_all add: foldl_min_Fin del: set_simps)

lemma foldl_fadd_Fin: "foldl fadd (Fin a) (map Fin ts) = Fin (a + sum_list ts)"
  by (induction ts arbitrary: a) (simp_all add: add.assoc)

lemma np_mean_Fin:
  "ts \<noteq> [] \<Longrightarrow> np_mean (map Fin ts) = Fin (sum_list ts / real (length ts))"
  by (simp add: np_mean_def fsum_def foldl_fadd_Fin)

lemma np_std_Fin:
  assumes "ts \<noteq> []"
  shows "np_std (map Fin ts) =
     Fin (sqrt (sum_list (map (\<lambda>t. (t - sum_list ts / real (length ts))\<^sup>2) ts) / real (length ts)))"
proof -
  let ?m = "sum_list ts / real (length ts)"
  have "map (\<lambda>x. fmul (fsub x (Fin ?m)) (fsub x (Fin ?m))) (map Fin ts) =
        map Fin (map (\<lambda>t. (t - ?m)\<^sup>2) ts)"
    by (simp add: fsub_def power2_eq_square)
  moreover have "0 \<le> sum_list (map (\<lambda>t. (t - ?m)\<^sup>2) ts) / real (length ts)"
    by (intro divide_nonneg_nonneg sum_list_nonneg) auto
  ultimately show ?thesis
    using assms by (simp add: np_std_def np_mean_Fin Let_def del: map_map)
qed

lemma comparable_floats: "comparable (filter P (map (\<lambda>c. Flt (f c)) xs))"
  by (auto simp: comparable_def list_all_iff)

lemma length_map_filter_eq:
  "(\<And>x. x \<in> set xs \<Longrightarrow> (f x \<noteq> None) = g x) \<Longrightarrow>
   length (List.map_filter f xs) = length (filter g xs)"
proof (induction xs)
  case Nil
  then show ?case by simp
next
  case (Cons a xs)
  then have "(f a \<noteq> None) = g a" by simp
  moreover from Cons have "length (List.map_filter f xs) = length (filter g xs)" by simp
  ultimately show ?case by (cases "f a") auto
qed

lemma mset_map_nth_mset:
  assumes "mset ix = mset [0..<length xs]"
  shows "mset (map ((!) xs) ix) = mset xs"
proof -
  from assms have "mset (map ((!) xs) ix) = mset (map ((!) xs) [0..<length xs])"
    by (metis mset_map)
  then show ?thesis by (simp add: map_nth)
qed

lemma sorted_output:
  assumes srt: "is_argsort
        (argsort lib (rev (filter (\<lambda>k. \<not> isna k) (map (\<lambda>c. Flt (consistency_score c)) data))))
        (rev (filter (\<lambda>k. \<not> isna k) (map (\<lambda>c. Flt (consistency_score c)) data)))"
  shows "\<exists>out. (if data \<noteq> [] then
                  bind_exn (nargsort lib False (map (\<lambda>c. Flt (consistency_score c)) data))
                    (\<lambda>indexer. Inr (map ((!) data) indexer))
                else Inr []) = Inr out \<and>
          mset out = mset data \<and>
          (\<exists>ks. map (\<lambda>c. Flt (consistency_score c)) out =
                   ks @ filter isna (map (\<lambda>c. Flt (consistency_score c)) data) \<and>
                 sorted_wrt (\<lambda>a b. cell_le b a) ks \<and>
                 mset ks = mset (filter (\<lambda>k. \<not> isna k) (map (\<lambda>c. Flt (consistency_score c)) data)))"
proof (cases "data = []")
  case True
  then show ?thesis by simp
next
  case False
  let ?keys = "map (\<lambda>c. Flt (consistency_score c)) data"
  from nargsort_descending [OF comparable_floats srt]
  obtain ix ks where ix: "nargsort lib False ?keys = Inr ix"
    and perm: "mset ix = mset [0..<length ?keys]"
    and keys: "map ((!) ?keys) ix = ks @ filter isna ?keys"
    and m: "mset ks = mset (filter (\<lambda>c. \<not> isna c) ?keys)"
    and so: "sorted_wrt (\<lambda>a b. cell_le b a) ks"
    by blast
  from perm have perm': "mset ix = mset [0..<length data]" by simp
  have inb: "i < length data" if "i \<in> set ix" for i
  proof -
    from that have "i \<in># mset ix" by simp
    with perm' have "i \<in> set [0..<length data]" by (metis set_mset_mset)
    then show ?thesis by simp
  qed
  have "map (\<lambda>c. Flt (consistency_score c)) (map ((!) data) ix) = map ((!) ?keys) ix"
    using inb by simp
  with keys have k: "map (\<lambda>c. Flt (consistency_score c)) (map ((!) data) ix) =
      ks @ filter isna ?keys" by simp
  have "mset (map ((!) data) ix) = mset data"
    by (rule mset_map_nth_mset [OF perm'])
  with False ix k m so show ?thesis
    by (auto simp: bind_exn_def)
qed

lemma score_Fin:
  assumes "0 \<le> s"
  shows "fdiv (Fin 1) (fadd (Fin s) (Fin 0.001)) = Fin (1 / (s + 0.001))"
  using assms by simp

text \<open>
  C4 (as the code has it): on a table that is not empty and whose rows all have a
  \<^verbatim>\<open>NUMBER\<close> cell, the call raises nothing and returns one record for each row with at
  least 3 lap times among its 10 best-lap fields, and none for any other row; the
  records are ordered by consistency score, descending, those whose score is NaN last
  (the order numpy's sort gives is assumed to be a sorting permutation). For finite lap
  times the record holds the minimum, the mean, the population standard deviation and
  1 / (standard deviation + 0.001).
\<close>

theorem calculate_consistency_rows:
  fixes lib :: pylib and df :: "cell dataframe"
  defines "data \<equiv>
     List.map_filter
       (\<lambda>vals. if 3 \<le> length (lap_times lib (series (columns df) vals))
                then (case consistency_of lib (series (columns df) vals)
                             (lap_times lib (series (columns df) vals)) of
                        Inr c \<Rightarrow> Some c | Inl e \<Rightarrow> None)
                else None) (rows df)"
  defines "keys \<equiv> map (\<lambda>c. Flt (consistency_score c)) data"
  assumes "\<not> empty df"
    and "\<forall>vals \<in> set (rows df). series (columns df) vals ''NUMBER'' \<noteq> None"
    and "is_argsort (argsort lib (rev (filter (\<lambda>k. \<not> isna k) keys)))
           (rev (filter (\<lambda>k. \<not> isna k) keys))"
  shows "(\<exists>out. calculate_consistency lib df = Inr out \<and> mset out = mset data \<and>
            (\<exists>ks. map (\<lambda>c. Flt (consistency_score c)) out = ks @ filter isna keys \<and>
                   sorted_wrt (\<lambda>a b. cell_le b a) ks \<and>
                   mset ks = mset (filter (\<lambda>k. \<not> isna k) keys))) \<and>
         length data =
           length (filter (\<lambda>vals. 3 \<le> length (List.map_filter
                                     (lap_time_of lib (series (columns df) vals)) [1..<11]))
                     (rows df)) \<and>
         (\<forall>row ts c. ts \<noteq> [] \<and> consistency_of lib row (map Fin ts) = Inr c \<longrightarrow>
            best_lap c = Fin (Min (set ts)) \<and>
            average_lap c = Fin (sum_list ts / real (length ts)) \<and>
            std_dev c =
              Fin (sqrt (sum_list (map (\<lambda>t. (t - sum_list ts / real (length ts))\<^sup>2) ts) /
                         real (length ts))) \<and>
            consistency_score c =
              Fin (1 / (sqrt (sum_list (map (\<lambda>t. (t - sum_list ts / real (length ts))\<^sup>2) ts) /
                              real (length ts)) + 0.001)))"
proof (intro conjI allI impI)
  have loop: "consistency_loop lib (columns df) (rows df) [] = Inr data"
    using assms(4) by (simp add: consistency_loop_map_filter data_def)
  have "calculate_consistency lib df =
      (if data \<noteq> [] then
         bind_exn (nargsort lib False (map (\<lambda>c. Flt (consistency_score c)) data))
           (\<lambda>indexer. Inr (map ((!) data) indexer))
       else Inr [])"
    using assms(3) by (simp add: calculate_consistency_def loop bind_exn_def)
  with sorted_output [of lib data] assms(5)
  show "\<exists>out. calculate_consistency lib df = Inr out \<and> mset out = mset data \<and>
            (\<exists>ks. map (\<lambda>c. Flt (consistency_score c)) out = ks @ filter isna keys \<and>
                   sorted_wrt (\<lambda>a b. cell_le b a) ks \<and>
                   mset ks = mset (filter (\<lambda>k. \<not> isna k) keys))"
    by (simp add: keys_def)
next
  have some: "(if 3 \<le> length (lap_times lib (series (columns df) vals))
                then (case consistency_of lib (series (columns df) vals)
                             (lap_times lib (series (columns df) vals)) of
                        Inr c \<Rightarrow> Some c | Inl e \<Rightarrow> None)
                else None) \<noteq> None \<longleftrightarrow>
              3 \<le> length (lap_times lib (series (columns df) vals))"
    if "vals \<in> set (rows df)" for vals
  proof (cases "3 \<le> length (lap_times lib (series (columns df) vals))")
    case True
    then have "lap_times lib (series (columns df) vals) \<noteq> []" by auto
    with assms(4) that obtain c where
      "consistency_of lib (series (columns df) vals) (lap_times lib (series (columns df) vals)) = Inr c"
      using consistency_of_total by fastforce
    with True show ?thesis by simp
  next
    case False
    then show ?thesis by simp
  qed
  have "length data = length (filter (\<lambda>vals. 3 \<le> length (lap_times lib (series (columns df) vals))) (rows df))"
    unfolding data_def by (rule length_map_filter_eq) (rule some)
  then show "length data =
           length (filter (\<lambda>vals. 3 \<le> length (List.map_filter
                                     (lap_time_of lib (series (columns df) vals)) [1..<11]))
                     (rows df))"
    by (simp add: lap_times_map_filter)
next
  fix row ts c
  assume a: "ts \<noteq> [] \<and> consistency_of lib row (map Fin ts) = Inr c"
  let ?v = "sum_list (map (\<lambda>t. (t - sum_list ts / real (length ts))\<^sup>2) ts) / real (length ts)"
  from a have c: "best_lap c = Fin (Min (set ts))" "average_lap c = np_mean (map Fin ts)"
    "std_dev c = np_std (map Fin ts)"
    "consistency_score c = fdiv (Fin 1) (fadd (np_std (map Fin ts)) (Fin 0.001))"
    by (auto simp: consistency_of_Inr_iff py_min_Fin)
  show "best_lap c = Fin (Min (set ts))" by (rule c)
  show "average_lap c = Fin (sum_list ts / real (length ts))"
    using a c by (simp add: np_mean_Fin)
  show "std_dev c = Fin (sqrt ?v)"
    using a c by (simp add: np_std_Fin)
  have nonneg: "0 \<le> sqrt ?v"
    by (intro real_sqrt_ge_zero divide_nonneg_nonneg sum_list_nonneg) auto
  have s: "np_std (map Fin ts) = Fin (sqrt ?v)"
    using a by (simp add: np_std_Fin)
  have "consistency_score c = fdiv (Fin 1) (fadd (Fin (sqrt ?v)) (Fin 0.001))"
    using c(4) by (simp only: s)
  also have "\<dots> = Fin (1 / (sqrt ?v + 0.001))"
    using nonneg by (rule score_Fin)
  finally show "consistency_score c = Fin (1 / (sqrt ?v + 0.001))" .
qed

text \<open>A best-laps table of three drivers: four lap times of mean 84 and deviation 1, two
  lap times, and three equal lap times.\<close>

lemma ex_lap_times:
  "lap_times lib0 (series [''NUMBER'', ''BESTLAP_1'', ''BESTLAP_2'', ''BESTLAP_3'', ''BESTLAP_4'']
      [IntC 12, Str ''1:23.000'', Str ''1:23.000'', Str ''1:25.000'', Str ''1:25.000'']) =
     [Fin 83, Fin 83, Fin 85, Fin 85]"
  "lap_times lib0 (series [''NUMBER'', ''BESTLAP_1'', ''BESTLAP_2'', ''BESTLAP_3'', ''BESTLAP_4'']
      [IntC 5, Str ''1:24.000'', Str ''1:24.500'', Str ''DNF'', Flt NaN]) =
     [Fin 84, Fin 84.5]"
  "lap_times lib0 (series [''NUMBER'', ''BESTLAP_1'', ''BESTLAP_2'', ''BESTLAP_3'', ''BESTLAP_4'']
      [IntC 7, Str ''1:23.000'', Str ''1:23.000'', Str ''1:23.000'', Flt NaN]) =
     [Fin 83, Fin 83, Fin 83]"
  by code_simp+

lemmas stats = consistency_of_def getitem_def get_def bind_exn_def series_def np_std_def np_mean_def
  fsum_def fsub_def flt_def Let_def lib0_def

lemma ex_records:
  "consistency_of lib0 (series [''NUMBER'', ''BESTLAP_1'', ''BESTLAP_2'', ''BESTLAP_3'', ''BESTLAP_4'']
      [IntC 12, Str ''1:23.000'', Str ''1:23.000'', Str ''1:25.000'', Str ''1:25.000''])
      [Fin 83, Fin 83, Fin 85, Fin 85] =
     Inr \<lparr>c_driver = '' '', c_car_number = IntC 12, c_team = Str '''', best_lap = Fin 83,
          average_lap = Fin 84, std_dev = Fin 1, consistency_score = Fin (1000 / 1001)\<rparr>"
  "consistency_of lib0 (series [''NUMBER'', ''BESTLAP_1'', ''BESTLAP_2'', ''BESTLAP_3'', ''BESTLAP_4'']
      [IntC 7, Str ''1:23.000'', Str ''1:23.000'', Str ''1:23.000'', Flt NaN])
      [Fin 83, Fin 83, Fin 83] =
     Inr \<lparr>c_driver = '' '', c_car_number = IntC 7, c_team = Str '''', best_lap = Fin 83,
          average_lap = Fin 83, std_dev = Fin 0, consistency_score = Fin 1000\<rparr>"
  by (simp_all add: stats)

lemma ex_argsort:
  "argsort lib0 [Flt (Fin 1000), Flt (Fin (1000 / 1001))] = [1, 0]"
  "nargsort lib0 False [Flt (Fin (1000 / 1001)), Flt (Fin 1000)] = Inr [1, 0]"
  by code_simp+

text \<open>C4 on that table: the driver with two lap times does not appear, the driver with
  exactly 3 appears, first, with score 1000.\<close>

theorem calculate_consistency_rows_witness:
  "\<not> empty \<lparr>columns = [''NUMBER'', ''BESTLAP_1'', ''BESTLAP_2'', ''BESTLAP_3'', ''BESTLAP_4''],
      rows = [[IntC 12, Str ''1:23.000'', Str ''1:23.000'', Str ''1:25.000'', Str ''1:25.000''],
              [IntC 5, Str ''1:24.000'', Str ''1:24.500'', Str ''DNF'', Flt NaN],
              [IntC 7, Str ''1:23.000'', Str ''1:23.000'', Str ''1:23.000'', Flt NaN]]\<rparr> \<and>
   (\<exists>out. calculate_consistency lib0
      \<lparr>columns = [''NUMBER'', ''BESTLAP_1'', ''BESTLAP_2'', ''BESTLAP_3'', ''BESTLAP_4''],
       rows = [[IntC 12, Str ''1:23.000'', Str ''1:23.000'', Str ''1:25.000'', Str ''1:25.000''],
               [IntC 5, Str ''1:24.000'', Str ''1:24.500'', Str ''DNF'', Flt NaN],
               [IntC 7, Str ''1:23.000'', Str ''1:23.000'', Str ''1:23.000'', Flt NaN]]\<rparr> = Inr out \<and>
      mset out =
        {#\<lparr>c_driver = '' '', c_car_number = IntC 12, c_team = Str '''', best_lap = Fin 83,
            average_lap = Fin 84, std_dev = Fin 1, consistency_score = Fin (1000 / 1001)\<rparr>,
          \<lparr>c_driver = '' '', c_car_number = IntC 7, c_team = Str '''', best_lap = Fin 83,
            average_lap = Fin 83, std_dev = Fin 0, consistency_score = Fin 1000\<rparr>#}) \<and>
   calculate_consistency lib0
      \<lparr>columns = [''NUMBER'', ''BESTLAP_1'', ''BESTLAP_2'', ''BESTLAP_3'', ''BESTLAP_4''],
       rows = [[IntC 12, Str ''1:23.000'', Str ''1:23.000'', Str ''1:25.000'', Str ''1:25.000''],
               [IntC 5, Str ''1:24.000'', Str ''1:24.500'', Str ''DNF'', Flt NaN],
               [IntC 7, Str ''1:23.000'', Str ''1:23.000'', Str ''1:23.000'', Flt NaN]]\<rparr> =
     Inr [\<lparr>c_driver = '' '', c_car_number = IntC 7, c_team = Str '''', best_lap = Fin 83,
            average_lap = Fin 83, std_dev = Fin 0, consistency_score = Fin 1000\<rparr>,
          \<lparr>c_driver = '' '', c_car_number = IntC 12, c_team = Str '''', best_lap = Fin 83,
            average_lap = Fin 84, std_dev = Fin 1, consistency_score = Fin (1000 / 1001)\<rparr>]"
proof -
  let ?cols = "[''NUMBER'', ''BESTLAP_1'', ''BESTLAP_2'', ''BESTLAP_3'', ''BESTLAP_4'']"
  let ?v1 = "[IntC 12, Str ''1:23.000'', Str ''1:23.000'', Str ''1:25.000'', Str ''1:25.000'']"
  let ?v2 = "[IntC 5, Str ''1:24.000'', Str ''1:24.500'', Str ''DNF'', Flt NaN]"
  let ?v3 = "[IntC 7, Str ''1:23.000'', Str ''1:23.000'', Str ''1:23.000'', Flt NaN]"
  let ?df = "\<lparr>columns = ?cols, rows = [?v1, ?v2, ?v3]\<rparr>"
  let ?r1 = "\<lparr>c_driver = '' '', c_car_number = IntC 12, c_team = Str '''', best_lap = Fin 83,
            average_lap = Fin 84, std_dev = Fin 1, consistency_score = Fin (1000 / 1001)\<rparr>"
  let ?r3 = "\<lparr>c_driver = '' '', c_car_number = IntC 7, c_team = Str '''', best_lap = Fin 83,
            average_lap = Fin 83, std_dev = Fin 0, consistency_score = Fin 1000\<rparr>"
  let ?data = "List.map_filter
       (\<lambda>vals. if 3 \<le> length (lap_times lib0 (series (columns ?df) vals))
                then (case consistency_of lib0 (series (columns ?df) vals)
                             (lap_times lib0 (series (columns ?df) vals)) of
                        Inr c \<Rightarrow> Some c | Inl e \<Rightarrow> None)
                else None) (rows ?df)"
  have h1: "\<not> empty ?df" by (simp add: empty_def)
  have h2: "\<forall>vals \<in> set (rows ?df). series (columns ?df) vals ''NUMBER'' \<noteq> None"
    by (simp add: series_def)
  have d: "?data = [?r1, ?r3]"
    by (simp add: ex_lap_times ex_records)
  have k: "rev (filter (\<lambda>k. \<not> isna k) (map (\<lambda>c. Flt (consistency_score c)) [?r1, ?r3])) =
           [Flt (Fin 1000), Flt (Fin (1000 / 1001))]"
    by simp
  have "is_argsort [1, 0] [Flt (Fin 1000), Flt (Fin (1000 / 1001))]"
    by (auto simp: is_argsort_def)
  then have h3: "is_argsort
      (argsort lib0 (rev (filter (\<lambda>k. \<not> isna k) (map (\<lambda>c. Flt (consistency_score c)) ?data))))
      (rev (filter (\<lambda>k. \<not> isna k) (map (\<lambda>c. Flt (consistency_score c)) ?data)))"
    by (simp only: d k ex_argsort)
  from calculate_consistency_rows [OF h1 h2 h3]
  have "\<exists>out. calculate_consistency lib0 ?df = Inr out \<and> mset out = mset ?data"
    by blast
  then have a: "\<exists>out. calculate_consistency lib0 ?df = Inr out \<and> mset out = {#?r1, ?r3#}"
    by (simp only: d mset.simps)
  have "consistency_loop lib0 ?cols [?v1, ?v2, ?v3] [] = Inr [?r1, ?r3]"
    by (simp add: ex_lap_times ex_records bind_exn_def)
  then have b: "calculate_consistency lib0 ?df = Inr [?r3, ?r1]"
    by (simp add: calculate_consistency_def empty_def bind_exn_def ex_argsort)
  from h1 a b show ?thesis by blast
qed

text \<open>C4 fails as stated: on a table without the column \<^verbatim>\<open>NUMBER\<close> a driver with exactly 3
  valid lap times does not appear; the call raises \<^verbatim>\<open>KeyError\<close>.\<close>

theorem calculate_consistency_rows_counterexample:
  "calculate_consistency lib0
     \<lparr>columns = [''TEAM'', ''BESTLAP_1'', ''BESTLAP_2'', ''BESTLAP_3''],
      rows = [[Str ''Red'', Str ''1:23.000'', Str ''1:23.500'', Str ''1:24.000'']]\<rparr> =
   Inl KeyError"
proof -
  have "lap_times lib0 (series [''TEAM'', ''BESTLAP_1'', ''BESTLAP_2'', ''BESTLAP_3'']
          [Str ''Red'', Str ''1:23.000'', Str ''1:23.500'', Str ''1:24.000'']) =
        [Fin 83, Fin 83.5, Fin 84]"
    by code_simp
  moreover have "consistency_of lib0 (series [''TEAM'', ''BESTLAP_1'', ''BESTLAP_2'', ''BESTLAP_3'']
          [Str ''Red'', Str ''1:23.000'', Str ''1:23.500'', Str ''1:24.000''])
          [Fin 83, Fin 83.5, Fin 84] = Inl KeyError"
    by (simp add: consistency_of_def getitem_def bind_exn_def series_def)
  ultimately show ?thesis
    by (simp add: calculate_consistency_def empty_def bind_exn_def)
qed

subsection \<open>Empty tables\<close>

text \<open>
  C10: on an empty table every operation of the analyzer returns its default result and
  raises nothing, and so does \<^verbatim>\<open>generate_race_summary\<close> on a mapping whose
  \<^verbatim>\<open>'results'\<close> entry is absent or empty.
\<close>

theorem empty_table_defaults:
  assumes "empty df"
    and "race_data ''results'' = None \<or> (\<exists>t. race_data ''results'' = Some t \<and> empty t)"
  shows "analyze_race_progression lib df =
           Inr \<lparr>a_total_finishers = 0, total_classified = 0, dnf_count = 0,
                average_laps = IntC 0, position_changes = []\<rparr> \<and>
         identify_key_battles lib df thr = [] \<and>
         analyze_fastest_laps lib df = Inr DataFrame \<and>
         calculate_consistency lib df = Inr [] \<and>
         get_position_changes lib df grid = Inr [] \<and>
         generate_race_summary lib race_data =
           Inr \<lparr>winner = None, pole_position = None, fastest_lap = None,
                total_finishers = 0, close_battles = [], top_performers = []\<rparr>"
proof (intro conjI)
  show "generate_race_summary lib race_data =
           Inr \<lparr>winner = None, pole_position = None, fastest_lap = None,
                total_finishers = 0, close_battles = [], top_performers = []\<rparr>"
    using assms(2) by (auto simp: generate_race_summary_def)
qed (simp_all add: assms(1) analyze_race_progression_def identify_key_battles_def
       analyze_fastest_laps_def calculate_consistency_def get_position_changes_def)

text \<open>C10 on a table with a header and no rows.\<close>

theorem empty_table_defaults_witness:
  "empty \<lparr>columns = [''POSITION'', ''GAP_PREV''], rows = [] :: cell list list\<rparr> \<and>
   analyze_fastest_laps lib0 \<lparr>columns = [''POSITION'', ''GAP_PREV''], rows = []\<rparr> = Inr DataFrame \<and>
   calculate_consistency lib0 \<lparr>columns = [''POSITION'', ''GAP_PREV''], rows = []\<rparr> = Inr [] \<and>
   generate_race_summary lib0
       [''results'' \<mapsto> \<lparr>columns = [''POSITION'', ''GAP_PREV''], rows = []\<rparr>] =
     Inr \<lparr>winner = None, pole_position = None, fastest_lap = None,
          total_finishers = 0, close_battles = [], top_performers = []\<rparr>"
proof -
  let ?df = "\<lparr>columns = [''POSITION'', ''GAP_PREV''], rows = [] :: cell list list\<rparr>"
  have a: "empty ?df" by (simp add: empty_def)
  have b: "[''results'' \<mapsto> ?df] ''results'' = None \<or>
           (\<exists>t. [''results'' \<mapsto> ?df] ''results'' = Some t \<and> empty t)"
    using a by simp
  from empty_table_defaults [of ?df "[''results'' \<mapsto> ?df]" lib0 "Fin 5" "''GRID''", OF a b] a
  show ?thesis by blast
qed
subsection \<open>Fastest laps\<close>

lemma match_standard_canonical:
  "match_standard reg u = Some n \<Longrightarrow> n \<in> set (map (\<lambda>e. upper (fst e)) reg)"
  by (induction reg) (auto split: if_splits)

lemma columns_normalize_owned:
  "columns (normalize_owned df) =
     map (\<lambda>c. case match_standard column_mappings (upper (strip c)) of
                Some n \<Rightarrow> n | None \<Rightarrow> strip c) (columns df)"
proof (cases "normalize_columns [df] 0")
  case None
  then show ?thesis by (simp add: normalize_columns_def Let_def split: if_splits)
next
  case (Some a)
  obtain r h where "a = (r, h)" by (cases a)
  with Some normalize_columns_returned(1) [of "[df]" 0 r h] show ?thesis
    by (simp add: normalize_owned_def)
qed

text \<open>No table that \<^verbatim>\<open>normalize_columns\<close> returns has a column \<^verbatim>\<open>DRIVER_FIRSTNAME\<close>: the
  name is a variant of \<^verbatim>\<open>driver_first\<close> and is renamed.\<close>

lemma no_firstname_column: "''DRIVER_FIRSTNAME'' \<notin> set (columns (normalize_owned df))"
proof
  assume "''DRIVER_FIRSTNAME'' \<in> set (columns (normalize_owned df))"
  then obtain c where c: "c \<in> set (columns df)"
    and e: "''DRIVER_FIRSTNAME'' =
      (case match_standard column_mappings (upper (strip c)) of Some n \<Rightarrow> n | None \<Rightarrow> strip c)"
    by (auto simp: columns_normalize_owned)
  have canon: "''DRIVER_FIRSTNAME'' \<notin> set (map (\<lambda>e. upper (fst e)) column_mappings)"
    by code_simp
  have renamed: "match_standard column_mappings (upper ''DRIVER_FIRSTNAME'') \<noteq> None"
    by code_simp
  show False
  proof (cases "match_standard column_mappings (upper (strip c))")
    case None
    with e have "strip c = ''DRIVER_FIRSTNAME''" by simp
    with None renamed show False by simp
  next
    case (Some n)
    with e have "n = ''DRIVER_FIRSTNAME''" by simp
    with Some canon match_standard_canonical show False by blast
  qed
qed

text \<open>So on every table from the parser that is not empty and has the column
  \<^verbatim>\<open>FL_TIME\<close>, \<^verbatim>\<open>analyze_fastest_laps\<close> raises \<^verbatim>\<open>KeyError\<close>.\<close>

lemma analyze_fastest_laps_normalized:
  assumes "\<not> empty (normalize_owned df)" and "''FL_TIME'' \<in> set (columns (normalize_owned df))"
  shows "analyze_fastest_laps lib (normalize_owned df) = Inl KeyError"
proof -
  have "\<not> set fl_columns \<subseteq> set (columns (normalize_owned df))"
    using no_firstname_column [of df] by (auto simp: fl_columns_def)
  with assms show ?thesis
    by (simp add: analyze_fastest_laps_def select_def bind_exn_def)
qed






section \<open>CSVParser: the entry points never raise\<close>

lemma rows_normalize_owned: "rows (normalize_owned df) = rows df"
proof (cases "normalize_columns [df] 0")
  case None
  then show ?thesis by (simp add: normalize_owned_def)
next
  case (Some a)
  obtain r h where "a = (r, h)" by (cases a)
  with Some normalize_columns_returned(2) [of "[df]" 0 r h] show ?thesis
    by (simp add: normalize_owned_def)
qed

lemma rows_setcol: "rows df = [] \<Longrightarrow> rows (setcol df col values) = []"
  by (simp add: setcol_def)

lemma rows_coerce_numeric:
  "rows df = [] \<Longrightarrow> coerce_numeric pd col df = Inr df' \<Longrightarrow> rows df' = []"
  by (auto simp: coerce_numeric_def bind_exn_def rows_setcol split: sum.splits)

lemma rows_coerce_all:
  "rows df = [] \<Longrightarrow> coerce_all pd cols df = Inr df' \<Longrightarrow> rows df' = []"
proof (induction cols arbitrary: df)
  case Nil
  then show ?case by simp
next
  case (Cons col cols)
  show ?case
  proof (cases "col \<in> set (columns df)")
    case True
    with Cons.prems(2) obtain d where d: "coerce_numeric pd col df = Inr d"
      and r: "coerce_all pd cols d = Inr df'"
      by (auto simp: bind_exn_def split: sum.splits)
    from rows_coerce_numeric [OF Cons.prems(1) d] have "rows d = []" .
    with Cons.IH r show ?thesis by blast
  next
    case False
    with Cons show ?thesis by simp
  qed
qed

lemma rows_coerce_normalized:
  "rows t = [] \<Longrightarrow> coerce_all pd cols (normalize_owned t) = Inr d \<Longrightarrow> rows d = []"
  by (rule rows_coerce_all [of "normalize_owned t"]) (simp_all add: rows_normalize_owned)

text \<open>What \<^verbatim>\<open>try: ... except Exception: return pd.DataFrame()\<close> gives, when the block
  after \<^verbatim>\<open>read_csv\<close> keeps a table without rows without rows.\<close>

lemma except_empty_read:
  assumes "\<And>t d. rows t = [] \<Longrightarrow> f t = Inr d \<Longrightarrow> rows d = []"
  shows "\<exists>df. except_empty (bind_exn rd f) = Inr df \<and>
           (\<forall>e. rd = Inl e \<longrightarrow> df = DataFrame) \<and>
           (\<forall>t. rd = Inr t \<and> rows t = [] \<longrightarrow> rows df = [])"
proof (cases rd)
  case (Inl e)
  then show ?thesis by (simp add: except_empty_def bind_exn_def)
next
  case (Inr t)
  show ?thesis
  proof (cases "f t")
    case (Inl e)
    with Inr show ?thesis by (simp add: except_empty_def bind_exn_def DataFrame_def)
  next
    case r: (Inr d)
    with Inr assms [of t d] show ?thesis by (simp add: except_empty_def bind_exn_def)
  qed
qed

lemma weather_block_rows:
  assumes "rows t = []"
    and "bind_exn
          (if ''TIME_UTC_SECONDS'' \<in> set (columns (normalize_owned t)) then
             bind_exn (coerce_numeric pd ''TIME_UTC_SECONDS'' (normalize_owned t)) (\<lambda>df.
             bind_exn (getcol df ''TIME_UTC_SECONDS'') (\<lambda>s.
             Inr (setcol df ''timestamp'' (to_datetime pd s))))
           else Inr (normalize_owned t))
          (coerce_all pd cols) = Inr d"
  shows "rows d = []"
proof -
  from assms(2) obtain m where
    m: "(if ''TIME_UTC_SECONDS'' \<in> set (columns (normalize_owned t)) then
             bind_exn (coerce_numeric pd ''TIME_UTC_SECONDS'' (normalize_owned t)) (\<lambda>df.
             bind_exn (getcol df ''TIME_UTC_SECONDS'') (\<lambda>s.
             Inr (setcol df ''timestamp'' (to_datetime pd s))))
           else Inr (normalize_owned t)) = Inr m"
    and c: "coerce_all pd cols m = Inr d"
    by (auto simp: bind_exn_def split: sum.splits)
  have n: "rows (normalize_owned t) = []"
    using assms(1) by (simp add: rows_normalize_owned)
  have rm: "rows m = []"
  proof (cases "''TIME_UTC_SECONDS'' \<in> set (columns (normalize_owned t))")
    case True
    with m obtain d1 s where d1: "coerce_numeric pd ''TIME_UTC_SECONDS'' (normalize_owned t) = Inr d1"
      and "m = setcol d1 ''timestamp'' (to_datetime pd s)"
      by (auto simp: bind_exn_def split: sum.splits)
    with rows_coerce_numeric [OF n d1] show ?thesis by (simp add: rows_setcol)
  next
    case False
    with m n show ?thesis by simp
  qed
  from rm c show ?thesis by (rule rows_coerce_all)
qed

text \<open>
  C5: each entry point returns a table, whatever the path and the delimiter; when
  \<^verbatim>\<open>read_csv\<close> raises, the table is the empty \<^verbatim>\<open>DataFrame()\<close>; when \<^verbatim>\<open>read_csv\<close> gives a
  table without rows (a file with a header row only), the table returned has no rows.
\<close>

theorem parsers_never_raise:
  "(\<exists>df. parse_race_results pd file_path delimiter = Inr df \<and>
      (\<forall>e. read_csv pd file_path delimiter = Inl e \<longrightarrow> df = DataFrame) \<and>
      (\<forall>t. read_csv pd file_path delimiter = Inr t \<and> rows t = [] \<longrightarrow> rows df = [])) \<and>
   (\<exists>df. parse_weather_data pd file_path delimiter = Inr df \<and>
      (\<forall>e. read_csv pd file_path delimiter = Inl e \<longrightarrow> df = DataFrame) \<and>
      (\<forall>t. read_csv pd file_path delimiter = Inr t \<and> rows t = [] \<longrightarrow> rows df = [])) \<and>
   (\<exists>df. parse_lap_times pd file_path delimiter = Inr df \<and>
      (\<forall>e. read_csv pd file_path delimiter = Inl e \<longrightarrow> df = DataFrame) \<and>
      (\<forall>t. read_csv pd file_path delimiter = Inr t \<and> rows t = [] \<longrightarrow> rows df = [])) \<and>
   (\<exists>df. parse_best_laps pd file_path delimiter = Inr df \<and>
      (\<forall>e. read_csv pd file_path delimiter = Inl e \<longrightarrow> df = DataFrame) \<and>
      (\<forall>t. read_csv pd file_path delimiter = Inr t \<and> rows t = [] \<longrightarrow> rows df = []))"
proof (intro conjI)
  show "\<exists>df. parse_race_results pd file_path delimiter = Inr df \<and>
      (\<forall>e. read_csv pd file_path delimiter = Inl e \<longrightarrow> df = DataFrame) \<and>
      (\<forall>t. read_csv pd file_path delimiter = Inr t \<and> rows t = [] \<longrightarrow> rows df = [])"
    unfolding parse_race_results_def
    by (rule except_empty_read) (rule rows_coerce_normalized)
  show "\<exists>df. parse_weather_data pd file_path delimiter = Inr df \<and>
      (\<forall>e. read_csv pd file_path delimiter = Inl e \<longrightarrow> df = DataFrame) \<and>
      (\<forall>t. read_csv pd file_path delimiter = Inr t \<and> rows t = [] \<longrightarrow> rows df = [])"
    unfolding parse_weather_data_def
    by (rule except_empty_read) (rule weather_block_rows)
  show "\<exists>df. parse_lap_times pd file_path delimiter = Inr df \<and>
      (\<forall>e. read_csv pd file_path delimiter = Inl e \<longrightarrow> df = DataFrame) \<and>
      (\<forall>t. read_csv pd file_path delimiter = Inr t \<and> rows t = [] \<longrightarrow> rows df = [])"
    unfolding parse_lap_times_def
    by (rule except_empty_read) (rule rows_coerce_normalized)
  show "\<exists>df. parse_best_laps pd file_path delimiter = Inr df \<and>
      (\<forall>e. read_csv pd file_path delimiter = Inl e \<longrightarrow> df = DataFrame) \<and>
      (\<forall>t. read_csv pd file_path delimiter = Inr t \<and> rows t = [] \<longrightarrow> rows df = [])"
    unfolding parse_best_laps_def
    by (rule except_empty_read) (rule rows_coerce_normalized)
qed


text \<open>C5 on a file system with one results file, which has a header row only: that file
  gives a table of three normalised columns and no rows, a missing file the empty table.\<close>

theorem parsers_never_raise_witness:
  "read_csv pd0 ''missing.csv'' '';'' = Inl FileNotFoundError \<and>
   parse_race_results pd0 ''missing.csv'' '';'' = Inr DataFrame \<and>
   parse_weather_data pd0 ''missing.csv'' '';'' = Inr DataFrame \<and>
   parse_race_results pd0 ''results.csv'' '';'' =
     Inr \<lparr>columns = [''POSITION'', ''NUMBER'', ''LAPS''], rows = []\<rparr>"
proof -
  have r: "read_csv pd0 ''missing.csv'' '';'' = Inl FileNotFoundError"
    by (simp add: pd0_def)
  from parsers_never_raise [of pd0 "''missing.csv''" "'';''"] r
  have "parse_race_results pd0 ''missing.csv'' '';'' = Inr DataFrame"
    and "parse_weather_data pd0 ''missing.csv'' '';'' = Inr DataFrame"
    by auto
  moreover have "parse_race_results pd0 ''results.csv'' '';'' =
     Inr \<lparr>columns = [''POSITION'', ''NUMBER'', ''LAPS''], rows = []\<rparr>"
    by code_simp
  ultimately show ?thesis using r by blast
qed

end
